theory Spec2Isabelle
  imports Main "HOL-Library.AList"
begin

section \<open>JavaScript values\<close>

text \<open>
  The handlers of \<^verbatim>\<open>server.js\<close> and \<^verbatim>\<open>controllers/userControllers.js\<close> move JSON
  around: request bodies, the replies of the Supabase client, table rows. A value is one
  of JavaScript's: \<open>undefined\<close>, \<open>null\<close>, a boolean, a number, a string, an array or an
  object. An object is its list of properties in insertion order. Numbers are integers
  here: the handlers only ever test a number for truthiness (is it zero).
\<close>

datatype jsval =
    JUndefined
  | JNull
  | JBool bool
  | JNum int
  | JStr string
  | JArr "jsval list"
  | JObj "(string \<times> jsval) list"

type_synonym jsobj = "(string \<times> jsval) list"

text \<open>What a \<^verbatim>\<open>throw\<close> or a rejected promise carries.\<close>

datatype exn = TypeError | Rejection jsval

text \<open>\<^verbatim>\<open>!v\<close> is \<open>\<not> truthy v\<close>.\<close>

fun truthy :: "jsval \<Rightarrow> bool" where
  "truthy JUndefined = False"
| "truthy JNull = False"
| "truthy (JBool b) = b"
| "truthy (JNum n) = (n \<noteq> 0)"
| "truthy (JStr s) = (s \<noteq> [])"
| "truthy (JArr xs) = True"
| "truthy (JObj kvs) = True"

text \<open>\<^verbatim>\<open>a || b\<close>\<close>

definition or_js :: "jsval \<Rightarrow> jsval \<Rightarrow> jsval" where
  "or_js a b = (if truthy a then a else b)"

text \<open>An own property of an object, \<open>undefined\<close> when it has none of that name.\<close>

definition field :: "jsobj \<Rightarrow> string \<Rightarrow> jsval" where
  "field kvs k = (case map_of kvs k of Some v \<Rightarrow> v | None \<Rightarrow> JUndefined)"

text \<open>
  \<^verbatim>\<open>v.k\<close>: a TypeError on \<open>undefined\<close> and \<open>null\<close>, the property or \<open>undefined\<close> on an
  object, \<open>undefined\<close> on anything else (the handlers read none of the built-in
  properties of strings and arrays).
\<close>

fun get_prop :: "jsval \<Rightarrow> string \<Rightarrow> exn + jsval" where
  "get_prop JUndefined k = Inl TypeError"
| "get_prop JNull k = Inl TypeError"
| "get_prop (JObj kvs) k = Inr (field kvs k)"
| "get_prop (JBool b) k = Inr JUndefined"
| "get_prop (JNum n) k = Inr JUndefined"
| "get_prop (JStr s) k = Inr JUndefined"
| "get_prop (JArr xs) k = Inr JUndefined"

text \<open>\<^verbatim>\<open>v?.k\<close>: \<open>undefined\<close> where \<^verbatim>\<open>v.k\<close> would throw.\<close>

definition opt_chain :: "jsval \<Rightarrow> string \<Rightarrow> jsval" where
  "opt_chain v k = (case get_prop v k of Inl e \<Rightarrow> JUndefined | Inr x \<Rightarrow> x)"

text \<open>
  \<^verbatim>\<open>k in v\<close>: a TypeError unless \<open>v\<close> is an object (arrays are objects, with none of
  the keys the handlers ask for).
\<close>

fun has_prop :: "string \<Rightarrow> jsval \<Rightarrow> exn + bool" where
  "has_prop k (JObj kvs) = Inr (map_of kvs k \<noteq> None)"
| "has_prop k (JArr xs) = Inr False"
| "has_prop k JUndefined = Inl TypeError"
| "has_prop k JNull = Inl TypeError"
| "has_prop k (JBool b) = Inl TypeError"
| "has_prop k (JNum n) = Inl TypeError"
| "has_prop k (JStr s) = Inl TypeError"

text \<open>
  What \<^verbatim>\<open>JSON.stringify\<close> does to an object on its way to the store: a property whose
  value is \<open>undefined\<close> is left out.
\<close>

definition strip_undefined :: "jsobj \<Rightarrow> jsobj" where
  "strip_undefined kvs = filter (\<lambda>kv. snd kv \<noteq> JUndefined) kvs"

text \<open>\<^verbatim>\<open>String.prototype.split\<close> with a one-character separator.\<close>

fun split :: "char \<Rightarrow> string \<Rightarrow> string list" where
  "split c [] = [[]]"
| "split c (x # xs) =
     (if x = c then [] # split c xs
      else (case split c xs of [] \<Rightarrow> [[x]] | p # ps \<Rightarrow> (x # p) # ps))"

section \<open>The store: Supabase auth and the profiles table\<close>

text \<open>
  The Supabase service is outside the repository; \<^verbatim>\<open>supabaseService\<close> and \<^verbatim>\<open>supabaseAnon\<close>
  are two handles on it. Its auth calls are taken as they answer: each is a function
  from the argument to the promise's outcome, a reply of any shape or a rejection.

  The \<^verbatim>\<open>profiles\<close> table is a list of rows, a row holding the columns written to it.
  \<^verbatim>\<open>insert\<close>, \<^verbatim>\<open>update(...).eq('id', ...)\<close> and \<^verbatim>\<open>select('*').eq('id', ...).single()\<close> act
  on it as PostgREST does, unless the store fails the call (\<open>fault\<close>): then the table is
  untouched and the call answers \<^verbatim>\<open>{data: null, error: {message}}\<close>, or its promise rejects.
  Every call made is logged in the world, in order.
\<close>

datatype 'a outcome = Resolved 'a | Rejected jsval

datatype call =
    CreateUser jsval
  | DeleteUser jsval
  | SignInWithPassword jsval
  | GetUser jsval
  | Insert "jsobj list"
  | Update jsobj jsval
  | SelectSingle jsval

datatype fault = StoreError string | Throws jsval

record supabase =
  createUser :: "jsval \<Rightarrow> jsval outcome"
  deleteUser :: "jsval \<Rightarrow> jsval outcome"
  signInWithPassword :: "jsval \<Rightarrow> jsval outcome"
  getUser :: "jsval \<Rightarrow> jsval outcome"
  fault :: "call \<Rightarrow> fault option"

record world =
  profiles :: "jsobj list"
  calls :: "call list"

text \<open>
  A computation runs in a world and either throws or returns; what it did to the world
  before a throw stays done.
\<close>

type_synonym 'a js = "world \<Rightarrow> (exn + 'a) \<times> world"

definition unit :: "'a \<Rightarrow> 'a js" where
  "unit x w = (Inr x, w)"

definition throw :: "exn \<Rightarrow> 'a js" where
  "throw e w = (Inl e, w)"

definition bind :: "'a js \<Rightarrow> ('a \<Rightarrow> 'b js) \<Rightarrow> 'b js" where
  "bind m f w = (case m w of (Inl e, w') \<Rightarrow> (Inl e, w') | (Inr x, w') \<Rightarrow> f x w')"

definition lift :: "exn + 'a \<Rightarrow> 'a js" where
  "lift r w = (r, w)"

text \<open>\<^verbatim>\<open>v.k\<close> as a step of a handler.\<close>

definition property :: "jsval \<Rightarrow> string \<Rightarrow> jsval js" where
  "property v k = lift (get_prop v k)"

text \<open>\<^verbatim>\<open>await p\<close>: the value of a resolved promise, a throw of a rejected one.\<close>

definition await :: "'a outcome js \<Rightarrow> 'a js" where
  "await p = bind p (\<lambda>out. case out of Resolved v \<Rightarrow> unit v | Rejected e \<Rightarrow> throw (Rejection e))"

text \<open>\<^verbatim>\<open>p.catch(() => {})\<close>: a rejection becomes a promise resolved to \<open>undefined\<close>.\<close>

definition catch_ignore :: "jsval outcome js \<Rightarrow> jsval outcome js" where
  "catch_ignore p =
     bind p (\<lambda>out. unit (case out of Resolved v \<Rightarrow> Resolved v | Rejected e \<Rightarrow> Resolved JUndefined))"

definition log_call :: "call \<Rightarrow> world \<Rightarrow> world" where
  "log_call c w = w\<lparr>calls := calls w @ [c]\<rparr>"

definition auth_admin_createUser :: "supabase \<Rightarrow> jsval \<Rightarrow> jsval outcome js" where
  "auth_admin_createUser sb args w = (Inr (createUser sb args), log_call (CreateUser args) w)"

definition auth_admin_deleteUser :: "supabase \<Rightarrow> jsval \<Rightarrow> jsval outcome js" where
  "auth_admin_deleteUser sb uid w = (Inr (deleteUser sb uid), log_call (DeleteUser uid) w)"

definition auth_signInWithPassword :: "supabase \<Rightarrow> jsval \<Rightarrow> jsval outcome js" where
  "auth_signInWithPassword sb args w =
     (Inr (signInWithPassword sb args), log_call (SignInWithPassword args) w)"

definition auth_getUser :: "supabase \<Rightarrow> jsval \<Rightarrow> jsval outcome js" where
  "auth_getUser sb token w = (Inr (getUser sb token), log_call (GetUser token) w)"

definition error_response :: "string \<Rightarrow> jsval" where
  "error_response m = JObj [(''data'', JNull), (''error'', JObj [(''message'', JStr m)])]"

definition data_response :: "jsval \<Rightarrow> jsval" where
  "data_response d = JObj [(''data'', d), (''error'', JNull)]"

definition faulted :: "fault \<Rightarrow> jsval outcome" where
  "faulted f = (case f of StoreError m \<Rightarrow> Resolved (error_response m) | Throws e \<Rightarrow> Rejected e)"

text \<open>\<^verbatim>\<open>.eq('id', uid)\<close>: the rows whose \<open>id\<close> is \<open>uid\<close>; nothing equals a missing \<open>uid\<close>.\<close>

definition row_has_id :: "jsval \<Rightarrow> jsobj \<Rightarrow> bool" where
  "row_has_id uid r = (uid \<noteq> JUndefined \<and> uid \<noteq> JNull \<and> map_of r ''id'' = Some uid)"

text \<open>An update sets the columns it names, in a row, and leaves the others.\<close>

fun apply_updates :: "jsobj \<Rightarrow> jsobj \<Rightarrow> jsobj" where
  "apply_updates [] r = r"
| "apply_updates (kv # ups) r = apply_updates ups (AList.update (fst kv) (snd kv) r)"

text \<open>\<^verbatim>\<open>.single()\<close>: the one row found; any other number of rows is an error.\<close>

definition single_row :: "jsval \<Rightarrow> jsobj list \<Rightarrow> jsobj option" where
  "single_row uid tbl = (case filter (row_has_id uid) tbl of [r] \<Rightarrow> Some r | _ \<Rightarrow> None)"

definition profiles_insert :: "supabase \<Rightarrow> jsobj list \<Rightarrow> jsval outcome js" where
  "profiles_insert sb rows w =
     (let w' = log_call (Insert rows) w in
      case fault sb (Insert rows) of
        Some f \<Rightarrow> (Inr (faulted f), w')
      | None \<Rightarrow> (Inr (Resolved (data_response JNull)),
                 w'\<lparr>profiles := profiles w' @ map strip_undefined rows\<rparr>))"

definition profiles_update_eq_id :: "supabase \<Rightarrow> jsobj \<Rightarrow> jsval \<Rightarrow> jsval outcome js" where
  "profiles_update_eq_id sb updates uid w =
     (let w' = log_call (Update updates uid) w in
      case fault sb (Update updates uid) of
        Some f \<Rightarrow> (Inr (faulted f), w')
      | None \<Rightarrow> (Inr (Resolved (data_response JNull)),
                 w'\<lparr>profiles :=
                      map (\<lambda>r. if row_has_id uid r then apply_updates (strip_undefined updates) r else r)
                        (profiles w')\<rparr>))"

definition profiles_select_eq_id_single :: "supabase \<Rightarrow> jsval \<Rightarrow> jsval outcome js" where
  "profiles_select_eq_id_single sb uid w =
     (let w' = log_call (SelectSingle uid) w in
      case fault sb (SelectSingle uid) of
        Some f \<Rightarrow> (Inr (faulted f), w')
      | None \<Rightarrow>
          (case single_row uid (profiles w') of
             Some r \<Rightarrow> (Inr (Resolved (data_response (JObj r))), w')
           | None \<Rightarrow>
               (Inr (Resolved (error_response ''JSON object requested, multiple (or no) rows returned'')),
                w')))"

section \<open>Requests and responses\<close>

record request =
  authorization :: "string option"
  body :: jsval

text \<open>
  What a handler leaves behind: a response, with its status and the value given to
  \<^verbatim>\<open>res.json\<close>, or an exception nobody caught.
\<close>

datatype result = Responded nat jsval | Uncaught exn

type_synonym response = "nat \<times> jsval"

definition respond :: "nat \<Rightarrow> jsval \<Rightarrow> response js" where
  "respond status b w = (Inr (status, b), w)"

definition try_catch :: "'a js \<Rightarrow> (exn \<Rightarrow> 'a js) \<Rightarrow> 'a js" where
  "try_catch m h w = (case m w of (Inl e, w') \<Rightarrow> h e w' | (Inr x, w') \<Rightarrow> (Inr x, w'))"

definition run :: "response js \<Rightarrow> world \<Rightarrow> result \<times> world" where
  "run m w =
     (case m w of
        (Inl e, w') \<Rightarrow> (Uncaught e, w')
      | (Inr sb, w') \<Rightarrow> (Responded (fst sb) (snd sb), w'))"

definition internal_server_error :: "exn \<Rightarrow> response js" where
  "internal_server_error err = respond 500 (JObj [(''error'', JStr ''internal server error'')])"

section \<open>server.js\<close>

definition getBearerToken :: "request \<Rightarrow> jsval" where
  "getBearerToken req =
     (let h = (case authorization req of None \<Rightarrow> [] | Some s \<Rightarrow> s);
          parts = split CHR '' '' h
      in if length parts = 2 \<and> parts ! 0 = ''Bearer'' then JStr (parts ! 1) else JNull)"

definition signup :: "supabase \<Rightarrow> request \<Rightarrow> world \<Rightarrow> result \<times> world" where
  "signup sb req = run (try_catch
    (bind (property (body req) ''email'') (\<lambda>email.
     bind (property (body req) ''password'') (\<lambda>password.
     bind (property (body req) ''username'') (\<lambda>username.
     bind (property (body req) ''full_name'') (\<lambda>full_name.
     bind (property (body req) ''avatar_url'') (\<lambda>avatar_url.
     if \<not> truthy email \<or> \<not> truthy password \<or> \<not> truthy username then
       respond 400 (JObj [(''error'', JStr ''email, password and username are required'')])
     else
     bind (await (auth_admin_createUser sb (JObj [
             (''email'', email),
             (''password'', password),
             (''email_confirm'', JBool True),
             (''user_metadata'', JObj [(''full_name'', full_name)])]))) (\<lambda>createResp.
     bind (property createResp ''error'') (\<lambda>createError.
     if truthy createError then
       bind (property createError ''message'') (\<lambda>message.
       respond 400 (JObj [(''error'', or_js message createError)]))
     else
     bind (property createResp ''user'') (\<lambda>user.
     bind (property user ''id'') (\<lambda>userId.
     bind (await (profiles_insert sb [[
             (''id'', userId),
             (''username'', username),
             (''full_name'', or_js full_name JNull),
             (''avatar_url'', or_js avatar_url JNull),
             (''role'', JStr ''user'')]])) (\<lambda>insertResp.
     bind (property insertResp ''error'') (\<lambda>insertError.
     if truthy insertError then
       bind (await (catch_ignore (auth_admin_deleteUser sb userId))) (\<lambda>ignored.
       bind (property insertError ''message'') (\<lambda>message.
       respond 400 (JObj [(''error'', or_js message insertError)])))
     else
     bind (await (auth_signInWithPassword sb (JObj [
             (''email'', email),
             (''password'', password)]))) (\<lambda>signInResp.
     bind (property signInResp ''error'') (\<lambda>signInError.
     if truthy signInError then
       bind (property signInError ''message'') (\<lambda>message.
       respond 400 (JObj [(''error'', or_js message signInError)]))
     else
     bind (await (profiles_select_eq_id_single sb userId)) (\<lambda>profileRow.
     bind (property user ''email'') (\<lambda>user_email.
     bind (property signInResp ''data'') (\<lambda>data.
     bind (property profileRow ''data'') (\<lambda>profile_data.
     respond 201 (JObj [
       (''message'', JStr ''user created''),
       (''user'', JObj [(''id'', userId), (''email'', user_email)]),
       (''session'', or_js (opt_chain data ''session'') JNull),
       (''profile'', or_js profile_data JNull)])))))))))))))))))))
    internal_server_error)"

definition login :: "supabase \<Rightarrow> request \<Rightarrow> world \<Rightarrow> result \<times> world" where
  "login sb req = run (try_catch
    (bind (property (body req) ''email'') (\<lambda>email.
     bind (property (body req) ''password'') (\<lambda>password.
     if \<not> truthy email \<or> \<not> truthy password then
       respond 400 (JObj [(''error'', JStr ''email and password required'')])
     else
     bind (await (auth_signInWithPassword sb (JObj [
             (''email'', email),
             (''password'', password)]))) (\<lambda>signInResp.
     bind (property signInResp ''error'') (\<lambda>signInError.
     if truthy signInError then
       bind (property signInError ''message'') (\<lambda>message.
       respond 401 (JObj [(''error'', or_js message signInError)]))
     else
     bind (property signInResp ''data'') (\<lambda>data.
     let session = opt_chain data ''session'';
         user = opt_chain data ''user''
     in
     if \<not> truthy user then
       respond 500 (JObj [(''error'', JStr ''could not get user after sign-in'')])
     else
     bind (property user ''id'') (\<lambda>userId.
     if \<not> truthy userId then
       respond 500 (JObj [(''error'', JStr ''could not get user after sign-in'')])
     else
     bind (await (profiles_select_eq_id_single sb userId)) (\<lambda>profileResp.
     bind (property profileResp ''data'') (\<lambda>profile_data.
     respond 200 (JObj [
       (''session'', session),
       (''profile'', or_js profile_data JNull)]))))))))))
    internal_server_error)"

definition get_profile :: "supabase \<Rightarrow> request \<Rightarrow> world \<Rightarrow> result \<times> world" where
  "get_profile sb req = run (try_catch
    (let token = getBearerToken req in
     if \<not> truthy token then
       respond 401 (JObj [(''error'', JStr ''missing access token in Authorization header'')])
     else
     bind (await (auth_getUser sb token)) (\<lambda>getUserResp.
     bind (property getUserResp ''error'') (\<lambda>getUserError.
     if truthy getUserError then
       bind (property getUserError ''message'') (\<lambda>message.
       respond 401 (JObj [(''error'', or_js message getUserError)]))
     else
     bind (property getUserResp ''data'') (\<lambda>data.
     let user = opt_chain data ''user'' in
     if \<not> truthy user then
       respond 401 (JObj [(''error'', JStr ''invalid token'')])
     else
     bind (property user ''id'') (\<lambda>userId.
     bind (await (profiles_select_eq_id_single sb userId)) (\<lambda>profileResp.
     bind (property profileResp ''error'') (\<lambda>profileError.
     if truthy profileError then
       bind (property profileError ''message'') (\<lambda>message.
       respond 404 (JObj [(''error'', or_js message profileError)]))
     else
     bind (property profileResp ''data'') (\<lambda>profile_data.
     respond 200 (JObj [(''profile'', profile_data)])))))))))
    internal_server_error)"

definition allowed :: "string list" where
  "allowed = [''username'', ''full_name'', ''avatar_url'', ''role'']"

text \<open>
  \<^verbatim>\<open>for (const k of allowed) { if (k in req.body) updates[k] = req.body[k]; }\<close>
\<close>

fun collect_updates :: "string list \<Rightarrow> jsval \<Rightarrow> jsobj \<Rightarrow> exn + jsobj" where
  "collect_updates [] b updates = Inr updates"
| "collect_updates (k # ks) b updates =
     (case has_prop k b of
        Inl e \<Rightarrow> Inl e
      | Inr present \<Rightarrow>
          if present then
            (case get_prop b k of
               Inl e \<Rightarrow> Inl e
             | Inr v \<Rightarrow> collect_updates ks b (AList.update k v updates))
          else collect_updates ks b updates)"

text \<open>\<open>now\<close> is what \<^verbatim>\<open>new Date().toISOString()\<close> gives when the handler asks.\<close>

definition put_profile :: "supabase \<Rightarrow> string \<Rightarrow> request \<Rightarrow> world \<Rightarrow> result \<times> world" where
  "put_profile sb now req = run (try_catch
    (let token = getBearerToken req in
     if \<not> truthy token then
       respond 401 (JObj [(''error'', JStr ''missing access token in Authorization header'')])
     else
     bind (await (auth_getUser sb token)) (\<lambda>getUserResp.
     bind (property getUserResp ''error'') (\<lambda>getUserError.
     if truthy getUserError then
       bind (property getUserError ''message'') (\<lambda>message.
       respond 401 (JObj [(''error'', or_js message getUserError)]))
     else
     bind (property getUserResp ''data'') (\<lambda>data.
     let user = opt_chain data ''user'' in
     if \<not> truthy user then
       respond 401 (JObj [(''error'', JStr ''invalid token'')])
     else
     bind (lift (collect_updates allowed (body req) [])) (\<lambda>updates.
     if length updates = 0 then
       respond 400 (JObj [(''error'', JStr ''no updatable fields provided'')])
     else
     let updates = AList.update ''updated_at'' (JStr now) updates in
     bind (property user ''id'') (\<lambda>userId.
     bind (await (profiles_update_eq_id sb updates userId)) (\<lambda>updateResp.
     bind (property updateResp ''error'') (\<lambda>updateError.
     if truthy updateError then
       bind (property updateError ''message'') (\<lambda>message.
       respond 400 (JObj [(''error'', or_js message updateError)]))
     else
     bind (await (profiles_select_eq_id_single sb userId)) (\<lambda>profileResp.
     bind (property profileResp ''data'') (\<lambda>profile_data.
     respond 200 (JObj [(''profile'', profile_data)])))))))))))
    internal_server_error)"

section \<open>controllers/userControllers.js\<close>

text \<open>
  The legacy routes are mounted at \<^verbatim>\<open>/api/users\<close>: \<^verbatim>\<open>POST /api/users/login\<close> is
  \<^verbatim>\<open>loginUser\<close> and \<^verbatim>\<open>GET /api/users\<close> is \<^verbatim>\<open>getAllUsers\<close> (the router,
  \<^verbatim>\<open>routes/userRoutes.js\<close>, and \<^verbatim>\<open>db.js\<close>, which builds the pool, are not among the source
  files). They talk to a \<^verbatim>\<open>users\<close> table through \<^verbatim>\<open>pool.query\<close>, and use
  \<^verbatim>\<open>bcrypt\<close> and \<^verbatim>\<open>jsonwebtoken\<close>, libraries outside the repository. The table is
  a list of rows. The two statements the modelled handlers send are

  \<^item> \<^verbatim>\<open>SELECT id, name, skills FROM users\<close>
  \<^item> \<^verbatim>\<open>SELECT * FROM users WHERE email=$1\<close>, with its parameter.

  A query is answered from the table unless the database fails it, and then the promise
  rejects. \<^verbatim>\<open>bcrypt.compare\<close> and \<^verbatim>\<open>jwt.sign\<close> (with \<^verbatim>\<open>process.env.JWT_SECRET\<close>) are
  taken as they answer.
\<close>

datatype sql = SelectIdNameSkills | SelectAllWhereEmail jsval

record libs =
  query_fault :: "sql \<Rightarrow> jsval option"
  bcrypt_compare :: "jsval \<Rightarrow> jsval \<Rightarrow> bool outcome"
  jwt_sign :: "jsval \<Rightarrow> exn + string"

text \<open>A column of a row; SQL's NULL where the row holds nothing.\<close>

definition column :: "jsobj \<Rightarrow> string \<Rightarrow> jsval" where
  "column r c = (case map_of r c of Some v \<Rightarrow> v | None \<Rightarrow> JNull)"

text \<open>SQL's \<open>=\<close> in a WHERE clause: never true of NULL.\<close>

definition sql_eq :: "jsval \<Rightarrow> jsval \<Rightarrow> bool" where
  "sql_eq x y = (x \<noteq> JNull \<and> x \<noteq> JUndefined \<and> y \<noteq> JNull \<and> y \<noteq> JUndefined \<and> x = y)"

fun answer :: "sql \<Rightarrow> jsobj list \<Rightarrow> jsobj list" where
  "answer SelectIdNameSkills users =
     map (\<lambda>r. map (\<lambda>c. (c, column r c)) [''id'', ''name'', ''skills'']) users"
| "answer (SelectAllWhereEmail email) users =
     filter (\<lambda>r. sql_eq (column r ''email'') email) users"

text \<open>\<^verbatim>\<open>pool.query(...)\<close>; the result stands for \<^verbatim>\<open>result.rows\<close>.\<close>

definition pool_query :: "libs \<Rightarrow> jsobj list \<Rightarrow> sql \<Rightarrow> jsobj list outcome" where
  "pool_query lib users q =
     (case query_fault lib q of Some e \<Rightarrow> Rejected e | None \<Rightarrow> Resolved (answer q users))"

text \<open>Neither handler has a \<^verbatim>\<open>try\<close>: what throws inside leaves the handler.\<close>

definition loginUser :: "libs \<Rightarrow> jsobj list \<Rightarrow> request \<Rightarrow> result" where
  "loginUser lib users req =
     (case get_prop (body req) ''email'' of
        Inl e \<Rightarrow> Uncaught e
      | Inr email \<Rightarrow>
     (case get_prop (body req) ''password'' of
        Inl e \<Rightarrow> Uncaught e
      | Inr password \<Rightarrow>
     (case pool_query lib users (SelectAllWhereEmail email) of
        Rejected e \<Rightarrow> Uncaught (Rejection e)
      | Resolved rows \<Rightarrow>
     (case rows of
        [] \<Rightarrow> Responded 400 (JObj [(''message'', JStr ''No such user'')])
      | row0 # others \<Rightarrow>
     (case bcrypt_compare lib password (field row0 ''password'') of
        Rejected e \<Rightarrow> Uncaught (Rejection e)
      | Resolved match \<Rightarrow>
     if \<not> match then Responded 400 (JObj [(''message'', JStr ''Wrong password'')])
     else
     (case jwt_sign lib (JObj [(''id'', field row0 ''id'')]) of
        Inl e \<Rightarrow> Uncaught e
      | Inr token \<Rightarrow>
     Responded 200 (JObj [(''token'', JStr token), (''user'', JObj row0)])))))))"

definition getAllUsers :: "libs \<Rightarrow> jsobj list \<Rightarrow> request \<Rightarrow> result" where
  "getAllUsers lib users req =
     (case pool_query lib users SelectIdNameSkills of
        Rejected e \<Rightarrow> Uncaught (Rejection e)
      | Resolved rows \<Rightarrow> Responded 200 (JArr (map JObj rows)))"

section \<open>Example requests and stores\<close>

definition alice_body :: jsobj where
  "alice_body = [(''email'', JStr ''a@x.com''), (''password'', JStr ''pw123456''),
     (''username'', JStr ''alice'')]"

definition alice_signup :: request where
  "alice_signup = \<lparr>authorization = None, body = JObj alice_body\<rparr>"

definition alice_identity :: jsval where
  "alice_identity = JObj [(''id'', JStr ''u1''), (''email'', JStr ''a@x.com'')]"

definition alice_session :: jsval where
  "alice_session = JObj [(''access_token'', JStr ''tok1''), (''refresh_token'', JStr ''ref1'')]"

definition alice_profile :: jsobj where
  "alice_profile = [(''id'', JStr ''u1''), (''username'', JStr ''alice''), (''full_name'', JNull),
     (''avatar_url'', JNull), (''role'', JStr ''user'')]"

definition happy_store :: supabase where
  "happy_store = \<lparr>
     createUser = (\<lambda>args. Resolved (JObj [
       (''data'', JObj [(''user'', alice_identity)]),
       (''error'', JNull)])),
     deleteUser = (\<lambda>uid. Resolved (JObj [
       (''data'', JObj [(''user'', alice_identity)]),
       (''error'', JNull)])),
     signInWithPassword = (\<lambda>args. Resolved (JObj [
       (''data'', JObj [(''user'', alice_identity), (''session'', alice_session)]),
       (''error'', JNull)])),
     getUser = (\<lambda>token.
       if token = JStr ''tok1''
       then Resolved (JObj [(''data'', JObj [(''user'', alice_identity)]), (''error'', JNull)])
       else Resolved (JObj [(''data'', JObj [(''user'', JNull)]),
              (''error'', JObj [(''message'', JStr ''invalid JWT'')])])),
     fault = (\<lambda>c. None)\<rparr>"


definition empty_world :: world where
  "empty_world = \<lparr>profiles = [], calls = []\<rparr>"

definition alice_login :: request where
  "alice_login = \<lparr>authorization = None,
     body = JObj [(''email'', JStr ''a@x.com''), (''password'', JStr ''pw123456'')]\<rparr>"

definition wrong_password_store :: supabase where
  "wrong_password_store = happy_store\<lparr>
     signInWithPassword := (\<lambda>args. Resolved (JObj [
       (''data'', JObj [(''user'', JNull), (''session'', JNull)]),
       (''error'', JObj [(''message'', JStr ''Invalid login credentials'')])]))\<rparr>"

definition no_user_store :: supabase where
  "no_user_store = happy_store\<lparr>
     signInWithPassword := (\<lambda>args. Resolved (JObj [
       (''data'', JObj [(''user'', JNull), (''session'', alice_session)]),
       (''error'', JNull)])),
     getUser := (\<lambda>token. Resolved (JObj [(''data'', JObj [(''user'', JNull)]), (''error'', JNull)]))\<rparr>"

definition alice_world :: world where
  "alice_world = \<lparr>profiles = [alice_profile], calls = []\<rparr>"

definition alice_get :: request where
  "alice_get = \<lparr>authorization = Some ''Bearer tok1'', body = JUndefined\<rparr>"

definition bob_row :: jsobj where
  "bob_row = [(''id'', JNum 1), (''name'', JStr ''Bob''), (''email'', JStr ''bob@x.com''),
     (''password'', JStr ''$2b$10$N9qo8uLOickgx2ZMRZoMye''), (''skills'', JStr ''guitar'')]"

definition bob_login :: request where
  "bob_login = \<lparr>authorization = None,
     body = JObj [(''email'', JStr ''bob@x.com''), (''password'', JStr ''hunter2'')]\<rparr>"

definition working_libs :: libs where
  "working_libs = \<lparr>
     query_fault = (\<lambda>q. None),
     bcrypt_compare = (\<lambda>password hash.
       Resolved (password = JStr ''hunter2'' \<and> hash = JStr ''$2b$10$N9qo8uLOickgx2ZMRZoMye'')),
     jwt_sign = (\<lambda>payload. Inr ''eyJhbGciOi'')\<rparr>"

definition unreachable_database :: libs where
  "unreachable_database = working_libs\<lparr>
     query_fault := (\<lambda>q. Some (JObj [(''message'', JStr ''connect ECONNREFUSED'')]))\<rparr>"

definition no_user_for_token_store :: supabase where
  "no_user_for_token_store = happy_store\<lparr>
     getUser := (\<lambda>token. Resolved (JObj [(''data'', JObj [(''user'', JNull)]), (''error'', JNull)]))\<rparr>"

definition select_failing_store :: supabase where
  "select_failing_store = happy_store\<lparr>
     fault := (\<lambda>c. case c of SelectSingle uid \<Rightarrow> Some (StoreError ''permission denied'') | _ \<Rightarrow> None)\<rparr>"

definition alice_put :: request where
  "alice_put = \<lparr>authorization = Some ''Bearer tok1'',
     body = JObj [(''full_name'', JStr ''Alice A''), (''email'', JStr ''evil@x.com'')]\<rparr>"

definition email_only_put :: request where
  "email_only_put = \<lparr>authorization = Some ''Bearer tok1'',
     body = JObj [(''email'', JStr ''evil@x.com'')]\<rparr>"

definition alice_updated :: "string \<Rightarrow> jsobj" where
  "alice_updated now = [(''id'', JStr ''u1''), (''username'', JStr ''alice''),
     (''full_name'', JStr ''Alice A''), (''avatar_url'', JNull), (''role'', JStr ''user''),
     (''updated_at'', JStr now)]"

definition bodyless_login :: request where
  "bodyless_login = \<lparr>authorization = None, body = JUndefined\<rparr>"

definition bodyless_put :: request where
  "bodyless_put = \<lparr>authorization = Some ''Bearer tok1'', body = JUndefined\<rparr>"

section \<open>Running a handler\<close>

lemmas run_defs = unit_def throw_def bind_def lift_def property_def await_def catch_ignore_def
  log_call_def auth_admin_createUser_def auth_admin_deleteUser_def auth_signInWithPassword_def
  auth_getUser_def profiles_insert_def profiles_update_eq_id_def profiles_select_eq_id_single_def
  respond_def try_catch_def run_def internal_server_error_def faulted_def error_response_def
  data_response_def

lemmas js_defs = run_defs or_js_def opt_chain_def

section \<open>The profiles table\<close>

lemma single_rowD: "single_row uid tbl = Some r \<Longrightarrow> row_has_id uid r \<and> r \<in> set tbl"
proof -
  assume "single_row uid tbl = Some r"
  then have "filter (row_has_id uid) tbl = [r]"
    by (simp add: single_row_def split: list.splits)
  then have "r \<in> set (filter (row_has_id uid) tbl)" by simp
  then show ?thesis by simp
qed

section \<open>Signup\<close>

text \<open>
  The client that has \<^verbatim>\<open>auth.admin.createUser\<close> and \<^verbatim>\<open>auth.signInWithPassword\<close>
  (supabase-js 2) answers \<^verbatim>\<open>createUser\<close> with \<^verbatim>\<open>{data: {user}, error}\<close>, and \<^verbatim>\<open>server.js\<close> reads
  its other replies that way (\<^verbatim>\<open>signInResp.data?.user\<close>, \<^verbatim>\<open>getUserResp.data?.user\<close>). After
  \<^verbatim>\<open>createUser\<close> it reads \<^verbatim>\<open>createResp.user\<close>: on a reply with no \<open>user\<close> of its own that is
  \<open>undefined\<close>, the next line's \<^verbatim>\<open>user.id\<close> throws, and the handler's \<^verbatim>\<open>catch\<close> answers 500 with
  \<^verbatim>\<open>createUser\<close> the only call made.
\<close>

lemma signup_user_read_throws:
  assumes b: "body req = JObj b"
    and required: "truthy (field b ''email'')" "truthy (field b ''password'')"
      "truthy (field b ''username'')"
    and created: "createUser sb (JObj [
             (''email'', field b ''email''),
             (''password'', field b ''password''),
             (''email_confirm'', JBool True),
             (''user_metadata'', JObj [(''full_name'', field b ''full_name'')])]) = Resolved createResp"
      "get_prop createResp ''error'' = Inr createError" "\<not> truthy createError"
      "get_prop createResp ''user'' = Inr JUndefined"
  shows "signup sb req w =
     (Responded 500 (JObj [(''error'', JStr ''internal server error'')]),
      w\<lparr>calls := calls w @ [
         CreateUser (JObj [
             (''email'', field b ''email''),
             (''password'', field b ''password''),
             (''email_confirm'', JBool True),
             (''user_metadata'', JObj [(''full_name'', field b ''full_name'')])])]\<rparr>)"
  unfolding signup_def using assms by (simp add: run_defs field_def)



text \<open>
  C2. Signup with \<^verbatim>\<open>email\<close>, \<^verbatim>\<open>password\<close> and \<^verbatim>\<open>username\<close>, the identity created, on any
  store, so also on one whose every call succeeds: the handler answers 500, not 201; no
  profile row is inserted, no sign-in is made, and the response carries neither a user nor a
  profile.
\<close>

theorem signup_with_every_call_succeeding_is_500:
  assumes b: "body req = JObj b"
    and required: "truthy (field b ''email'')" "truthy (field b ''password'')"
      "truthy (field b ''username'')"
    and created: "createUser sb (JObj [
             (''email'', field b ''email''),
             (''password'', field b ''password''),
             (''email_confirm'', JBool True),
             (''user_metadata'', JObj [(''full_name'', field b ''full_name'')])]) =
        Resolved (JObj [(''data'', JObj [(''user'', user)]), (''error'', JNull)])"
  shows "fst (signup sb req w) = Responded 500 (JObj [(''error'', JStr ''internal server error'')])
    \<and> profiles (snd (signup sb req w)) = profiles w
    \<and> calls (snd (signup sb req w)) = calls w @ [
         CreateUser (JObj [
             (''email'', field b ''email''),
             (''password'', field b ''password''),
             (''email_confirm'', JBool True),
             (''user_metadata'', JObj [(''full_name'', field b ''full_name'')])])]"
proof -
  have "signup sb req w =
     (Responded 500 (JObj [(''error'', JStr ''internal server error'')]),
      w\<lparr>calls := calls w @ [
         CreateUser (JObj [
             (''email'', field b ''email''),
             (''password'', field b ''password''),
             (''email_confirm'', JBool True),
             (''user_metadata'', JObj [(''full_name'', field b ''full_name'')])])]\<rparr>)"
    using assms
      signup_user_read_throws [where req = req and b = b and sb = sb and w = w
        and createResp = "JObj [(''data'', JObj [(''user'', user)]), (''error'', JNull)]"
        and createError = JNull]
    by (simp add: field_def)
  then show ?thesis by simp
qed

theorem signup_with_every_call_succeeding_is_500_witness:
  "fst (signup happy_store alice_signup empty_world) =
     Responded 500 (JObj [(''error'', JStr ''internal server error'')])
   \<and> profiles (snd (signup happy_store alice_signup empty_world)) = []
   \<and> calls (snd (signup happy_store alice_signup empty_world)) = [
         CreateUser (JObj [
             (''email'', JStr ''a@x.com''),
             (''password'', JStr ''pw123456''),
             (''email_confirm'', JBool True),
             (''user_metadata'', JObj [(''full_name'', JUndefined)])])]
   \<and> fault happy_store (Insert [alice_profile]) = None
   \<and> signInWithPassword happy_store (JObj [(''email'', JStr ''a@x.com''), (''password'', JStr ''pw123456'')]) =
       Resolved (JObj [(''data'', JObj [(''user'', alice_identity), (''session'', alice_session)]),
         (''error'', JNull)])"
  using signup_with_every_call_succeeding_is_500 [where req = alice_signup and b = alice_body
      and sb = happy_store and user = alice_identity and w = empty_world]
  by (simp add: alice_body_def alice_signup_def alice_identity_def alice_session_def
      alice_profile_def happy_store_def empty_world_def field_def)

section \<open>Login\<close>

text \<open>
  C4. Login, with a store whose calls answer. A request without a body (\<^verbatim>\<open>req.body\<close> is
  \<open>undefined\<close> or \<open>null\<close>): the destructuring throws and the handler answers 500, with no store
  call. A request with a body: a missing (falsy) email or password gives 400, and no store
  call; the sign-in answered with an error gives 401 with that error and nothing else in
  the body, so no session; the sign-in answered without an error but with no user, or a
  user with no id, gives 500; otherwise 200 with \<^verbatim>\<open>{session, profile}\<close>, the profile being
  the row fetched by the user's id, or \<open>null\<close> when the fetch found none or was answered with
  an error.
\<close>

theorem login_statuses:
  "((body req = JUndefined \<or> body req = JNull) \<longrightarrow>
      login sb req w =
        (Responded 500 (JObj [(''error'', JStr ''internal server error'')]), w))
   \<and> (get_prop (body req) ''email'' = Inr email \<and>
       get_prop (body req) ''password'' = Inr password \<longrightarrow>
       (\<not> truthy email \<or> \<not> truthy password \<longrightarrow>
                login sb req w =
                  (Responded 400 (JObj [(''error'', JStr ''email and password required'')]), w))
           \<and> (truthy email \<and> truthy password \<and>
                signInWithPassword sb (JObj [(''email'', email), (''password'', password)]) = Resolved resp \<and>
                get_prop resp ''error'' = Inr err \<and> truthy err \<longrightarrow>
                login sb req w =
                  (Responded 401 (JObj [(''error'', or_js (opt_chain err ''message'') err)]),
                   w\<lparr>calls := calls w @
                      [SignInWithPassword (JObj [(''email'', email), (''password'', password)])]\<rparr>))
           \<and> (truthy email \<and> truthy password \<and>
                signInWithPassword sb (JObj [(''email'', email), (''password'', password)]) = Resolved resp \<and>
                get_prop resp ''error'' = Inr err \<and> \<not> truthy err \<and>
                get_prop resp ''data'' = Inr data \<and>
                (\<not> truthy (opt_chain data ''user'') \<or>
                 \<not> truthy (opt_chain (opt_chain data ''user'') ''id'')) \<longrightarrow>
                login sb req w =
                  (Responded 500 (JObj [(''error'', JStr ''could not get user after sign-in'')]),
                   w\<lparr>calls := calls w @
                      [SignInWithPassword (JObj [(''email'', email), (''password'', password)])]\<rparr>))
           \<and> (truthy email \<and> truthy password \<and>
                signInWithPassword sb (JObj [(''email'', email), (''password'', password)]) = Resolved resp \<and>
                get_prop resp ''error'' = Inr err \<and> \<not> truthy err \<and>
                get_prop resp ''data'' = Inr data \<and>
                truthy (opt_chain data ''user'') \<and>
                get_prop (opt_chain data ''user'') ''id'' = Inr uid \<and> truthy uid \<and>
                (\<forall>e. fault sb (SelectSingle uid) \<noteq> Some (Throws e)) \<longrightarrow>
                login sb req w =
                  (Responded 200 (JObj [
                     (''session'', opt_chain data ''session''),
                     (''profile'',
                        case fault sb (SelectSingle uid) of
                          Some f \<Rightarrow> JNull
                        | None \<Rightarrow> (case single_row uid (profiles w) of
                                     Some r \<Rightarrow> JObj r | None \<Rightarrow> JNull))]),
                   w\<lparr>calls := calls w @
                      [SignInWithPassword (JObj [(''email'', email), (''password'', password)]),
                       SelectSingle uid]\<rparr>)))"
proof (intro conjI impI)
  assume "body req = JUndefined \<or> body req = JNull"
  then show "login sb req w =
      (Responded 500 (JObj [(''error'', JStr ''internal server error'')]), w)"
    unfolding login_def by (auto simp add: run_defs)
next
  assume gets: "get_prop (body req) ''email'' = Inr email \<and>
       get_prop (body req) ''password'' = Inr password"
  then have email: "get_prop (body req) ''email'' = Inr email"
    and password: "get_prop (body req) ''password'' = Inr password"
    by simp_all
  assume c: "\<not> truthy email \<or> \<not> truthy password"
  from c show "login sb req w =
      (Responded 400 (JObj [(''error'', JStr ''email and password required'')]), w)"
    unfolding login_def using email password by (auto simp add: js_defs)
next
  assume gets: "get_prop (body req) ''email'' = Inr email \<and>
       get_prop (body req) ''password'' = Inr password"
  then have email: "get_prop (body req) ''email'' = Inr email"
    and password: "get_prop (body req) ''password'' = Inr password"
    by simp_all
  assume c: "truthy email \<and> truthy password \<and>
            signInWithPassword sb (JObj [(''email'', email), (''password'', password)]) = Resolved resp \<and>
            get_prop resp ''error'' = Inr err \<and> truthy err"
  from c show "login sb req w =
              (Responded 401 (JObj [(''error'', or_js (opt_chain err ''message'') err)]),
               w\<lparr>calls := calls w @
                  [SignInWithPassword (JObj [(''email'', email), (''password'', password)])]\<rparr>)"
    unfolding login_def using email password
    by (cases err) (simp_all add: js_defs)
next
  assume gets: "get_prop (body req) ''email'' = Inr email \<and>
       get_prop (body req) ''password'' = Inr password"
  then have email: "get_prop (body req) ''email'' = Inr email"
    and password: "get_prop (body req) ''password'' = Inr password"
    by simp_all
  assume c: "truthy email \<and> truthy password \<and>
            signInWithPassword sb (JObj [(''email'', email), (''password'', password)]) = Resolved resp \<and>
            get_prop resp ''error'' = Inr err \<and> \<not> truthy err \<and>
            get_prop resp ''data'' = Inr data \<and>
            (\<not> truthy (opt_chain data ''user'') \<or>
             \<not> truthy (opt_chain (opt_chain data ''user'') ''id''))"
  from c show "login sb req w =
              (Responded 500 (JObj [(''error'', JStr ''could not get user after sign-in'')]),
               w\<lparr>calls := calls w @
                  [SignInWithPassword (JObj [(''email'', email), (''password'', password)])]\<rparr>)"
    unfolding login_def using email password
    by (cases "opt_chain data ''user''") (auto simp add: js_defs Let_def)
next
  assume gets: "get_prop (body req) ''email'' = Inr email \<and>
       get_prop (body req) ''password'' = Inr password"
  then have email: "get_prop (body req) ''email'' = Inr email"
    and password: "get_prop (body req) ''password'' = Inr password"
    by simp_all
  assume a: "truthy email \<and> truthy password \<and>
            signInWithPassword sb (JObj [(''email'', email), (''password'', password)]) = Resolved resp \<and>
            get_prop resp ''error'' = Inr err \<and> \<not> truthy err \<and>
            get_prop resp ''data'' = Inr data \<and>
            truthy (opt_chain data ''user'') \<and>
            get_prop (opt_chain data ''user'') ''id'' = Inr uid \<and> truthy uid \<and>
            (\<forall>e. fault sb (SelectSingle uid) \<noteq> Some (Throws e))"
  show "login sb req w =
              (Responded 200 (JObj [
                 (''session'', opt_chain data ''session''),
                 (''profile'',
                    case fault sb (SelectSingle uid) of
                      Some f \<Rightarrow> JNull
                    | None \<Rightarrow> (case single_row uid (profiles w) of
                                 Some r \<Rightarrow> JObj r | None \<Rightarrow> JNull))]),
               w\<lparr>calls := calls w @
                  [SignInWithPassword (JObj [(''email'', email), (''password'', password)]),
                   SelectSingle uid]\<rparr>)"
    unfolding login_def using email password a
    by (simp add: js_defs field_def Let_def split: option.split fault.split)
qed

theorem login_statuses_witness:
  "login happy_store bodyless_login alice_world =
     (Responded 500 (JObj [(''error'', JStr ''internal server error'')]), alice_world)
   \<and> login happy_store \<lparr>authorization = None, body = JObj [(''email'', JStr ''a@x.com'')]\<rparr> alice_world =
     (Responded 400 (JObj [(''error'', JStr ''email and password required'')]), alice_world)
   \<and> login wrong_password_store alice_login alice_world =
     (Responded 401 (JObj [(''error'', JStr ''Invalid login credentials'')]),
      alice_world\<lparr>calls := [SignInWithPassword (body alice_login)]\<rparr>)
   \<and> login no_user_store alice_login alice_world =
     (Responded 500 (JObj [(''error'', JStr ''could not get user after sign-in'')]),
      alice_world\<lparr>calls := [SignInWithPassword (body alice_login)]\<rparr>)
   \<and> login happy_store alice_login alice_world =
     (Responded 200 (JObj [(''session'', alice_session), (''profile'', JObj alice_profile)]),
      alice_world\<lparr>calls := [SignInWithPassword (body alice_login), SelectSingle (JStr ''u1'')]\<rparr>)"
  using
    login_statuses [where req = bodyless_login and sb = happy_store and w = alice_world]
    login_statuses [where req = "\<lparr>authorization = None, body = JObj [(''email'', JStr ''a@x.com'')]\<rparr>"
      and email = "JStr ''a@x.com''" and password = JUndefined and sb = happy_store
      and w = alice_world]
    login_statuses [where req = alice_login and email = "JStr ''a@x.com''"
      and password = "JStr ''pw123456''" and sb = wrong_password_store and w = alice_world
      and resp = "JObj [(''data'', JObj [(''user'', JNull), (''session'', JNull)]),
             (''error'', JObj [(''message'', JStr ''Invalid login credentials'')])]"
      and err = "JObj [(''message'', JStr ''Invalid login credentials'')]"]
    login_statuses [where req = alice_login and email = "JStr ''a@x.com''"
      and password = "JStr ''pw123456''" and sb = no_user_store and w = alice_world
      and resp = "JObj [(''data'', JObj [(''user'', JNull), (''session'', alice_session)]),
             (''error'', JNull)]"
      and err = JNull and data = "JObj [(''user'', JNull), (''session'', alice_session)]"]
    login_statuses [where req = alice_login and email = "JStr ''a@x.com''"
      and password = "JStr ''pw123456''" and sb = happy_store and w = alice_world
      and resp = "JObj [(''data'', JObj [(''user'', alice_identity), (''session'', alice_session)]),
             (''error'', JNull)]"
      and err = JNull and data = "JObj [(''user'', alice_identity), (''session'', alice_session)]"
      and uid = "JStr ''u1''"]
  by (simp add: alice_identity_def alice_session_def alice_profile_def happy_store_def
      alice_login_def bodyless_login_def wrong_password_store_def no_user_store_def alice_world_def field_def
      or_js_def opt_chain_def single_row_def row_has_id_def)

text \<open>
  A login request without a body has neither email nor password, and is answered 500, not
  400.
\<close>

theorem login_without_body_is_500:
  "body bodyless_login = JUndefined
   \<and> login happy_store bodyless_login alice_world =
     (Responded 500 (JObj [(''error'', JStr ''internal server error'')]), alice_world)"
  by (simp add: login_def bodyless_login_def run_defs)

text \<open>A store call that rejects ends in the handler's \<^verbatim>\<open>catch\<close>.\<close>

lemma login_sign_in_rejected:
  assumes "get_prop (body req) ''email'' = Inr email" "truthy email"
    and "get_prop (body req) ''password'' = Inr password" "truthy password"
    and "signInWithPassword sb (JObj [(''email'', email), (''password'', password)]) = Rejected e"
  shows "login sb req w =
    (Responded 500 (JObj [(''error'', JStr ''internal server error'')]),
     w\<lparr>calls := calls w @
        [SignInWithPassword (JObj [(''email'', email), (''password'', password)])]\<rparr>)"
  unfolding login_def using assms by (simp add: run_defs)

lemma login_fetch_rejected:
  assumes "get_prop (body req) ''email'' = Inr email" "truthy email"
    and "get_prop (body req) ''password'' = Inr password" "truthy password"
    and "signInWithPassword sb (JObj [(''email'', email), (''password'', password)]) = Resolved resp"
    and "get_prop resp ''error'' = Inr err" "\<not> truthy err"
    and "get_prop resp ''data'' = Inr data" "truthy (opt_chain data ''user'')"
    and "get_prop (opt_chain data ''user'') ''id'' = Inr uid" "truthy uid"
    and "fault sb (SelectSingle uid) = Some (Throws e)"
  shows "login sb req w =
    (Responded 500 (JObj [(''error'', JStr ''internal server error'')]),
     w\<lparr>calls := calls w @
        [SignInWithPassword (JObj [(''email'', email), (''password'', password)]),
         SelectSingle uid]\<rparr>)"
  unfolding login_def using assms by (simp add: run_defs Let_def)

section \<open>Get profile\<close>

text \<open>
  C5. Get-profile, with a store whose calls answer. No token in the Authorization header
  (none is found when there is no header): 401, and no store call. The token answered with
  an error by \<^verbatim>\<open>getUser\<close>, or answered with no user: 401. A user resolved and the profile
  fetch answered with an error, from the store or because not exactly one row has the
  user's id: 404. Otherwise 200 with \<^verbatim>\<open>{profile}\<close>, the profile being a row of the table
  whose id is the user's.
\<close>

theorem get_profile_statuses:
  "(\<not> truthy (getBearerToken req) \<longrightarrow>
      get_profile sb req w =
        (Responded 401 (JObj [(''error'', JStr ''missing access token in Authorization header'')]), w))
   \<and> (authorization req = None \<longrightarrow> \<not> truthy (getBearerToken req))
   \<and> (truthy (getBearerToken req) \<and> getUser sb (getBearerToken req) = Resolved resp \<and>
        get_prop resp ''error'' = Inr err \<and> truthy err \<longrightarrow>
      get_profile sb req w =
        (Responded 401 (JObj [(''error'', or_js (opt_chain err ''message'') err)]),
         w\<lparr>calls := calls w @ [GetUser (getBearerToken req)]\<rparr>))
   \<and> (truthy (getBearerToken req) \<and> getUser sb (getBearerToken req) = Resolved resp \<and>
        get_prop resp ''error'' = Inr err \<and> \<not> truthy err \<and>
        get_prop resp ''data'' = Inr data \<and> \<not> truthy (opt_chain data ''user'') \<longrightarrow>
      get_profile sb req w =
        (Responded 401 (JObj [(''error'', JStr ''invalid token'')]),
         w\<lparr>calls := calls w @ [GetUser (getBearerToken req)]\<rparr>))
   \<and> (truthy (getBearerToken req) \<and> getUser sb (getBearerToken req) = Resolved resp \<and>
        get_prop resp ''error'' = Inr err \<and> \<not> truthy err \<and>
        get_prop resp ''data'' = Inr data \<and> truthy (opt_chain data ''user'') \<and>
        get_prop (opt_chain data ''user'') ''id'' = Inr uid \<and>
        fault sb (SelectSingle uid) = Some (StoreError m) \<longrightarrow>
      get_profile sb req w =
        (Responded 404 (JObj [(''error'', if m \<noteq> [] then JStr m else JObj [(''message'', JStr m)])]),
         w\<lparr>calls := calls w @ [GetUser (getBearerToken req), SelectSingle uid]\<rparr>))
   \<and> (truthy (getBearerToken req) \<and> getUser sb (getBearerToken req) = Resolved resp \<and>
        get_prop resp ''error'' = Inr err \<and> \<not> truthy err \<and>
        get_prop resp ''data'' = Inr data \<and> truthy (opt_chain data ''user'') \<and>
        get_prop (opt_chain data ''user'') ''id'' = Inr uid \<and>
        fault sb (SelectSingle uid) = None \<and> single_row uid (profiles w) = None \<longrightarrow>
      get_profile sb req w =
        (Responded 404 (JObj [(''error'',
            JStr ''JSON object requested, multiple (or no) rows returned'')]),
         w\<lparr>calls := calls w @ [GetUser (getBearerToken req), SelectSingle uid]\<rparr>))
   \<and> (truthy (getBearerToken req) \<and> getUser sb (getBearerToken req) = Resolved resp \<and>
        get_prop resp ''error'' = Inr err \<and> \<not> truthy err \<and>
        get_prop resp ''data'' = Inr data \<and> truthy (opt_chain data ''user'') \<and>
        get_prop (opt_chain data ''user'') ''id'' = Inr uid \<and>
        fault sb (SelectSingle uid) = None \<and> single_row uid (profiles w) = Some r \<longrightarrow>
      get_profile sb req w =
        (Responded 200 (JObj [(''profile'', JObj r)]),
         w\<lparr>calls := calls w @ [GetUser (getBearerToken req), SelectSingle uid]\<rparr>)
      \<and> r \<in> set (profiles w) \<and> map_of r ''id'' = Some uid)"
proof (intro conjI impI)
  assume "authorization req = None"
  then show "\<not> truthy (getBearerToken req)"
    by (simp add: getBearerToken_def)
next
  assume "\<not> truthy (getBearerToken req)"
  then show "get_profile sb req w =
        (Responded 401 (JObj [(''error'', JStr ''missing access token in Authorization header'')]), w)"
    unfolding get_profile_def by (simp add: js_defs Let_def)
next
  assume "truthy (getBearerToken req) \<and> getUser sb (getBearerToken req) = Resolved resp \<and>
        get_prop resp ''error'' = Inr err \<and> truthy err"
  then show "get_profile sb req w =
        (Responded 401 (JObj [(''error'', or_js (opt_chain err ''message'') err)]),
         w\<lparr>calls := calls w @ [GetUser (getBearerToken req)]\<rparr>)"
    unfolding get_profile_def by (cases err) (simp_all add: js_defs Let_def)
next
  assume "truthy (getBearerToken req) \<and> getUser sb (getBearerToken req) = Resolved resp \<and>
        get_prop resp ''error'' = Inr err \<and> \<not> truthy err \<and>
        get_prop resp ''data'' = Inr data \<and> \<not> truthy (opt_chain data ''user'')"
  then show "get_profile sb req w =
        (Responded 401 (JObj [(''error'', JStr ''invalid token'')]),
         w\<lparr>calls := calls w @ [GetUser (getBearerToken req)]\<rparr>)"
    unfolding get_profile_def by (simp add: js_defs Let_def)
next
  assume "truthy (getBearerToken req) \<and> getUser sb (getBearerToken req) = Resolved resp \<and>
        get_prop resp ''error'' = Inr err \<and> \<not> truthy err \<and>
        get_prop resp ''data'' = Inr data \<and> truthy (opt_chain data ''user'') \<and>
        get_prop (opt_chain data ''user'') ''id'' = Inr uid \<and>
        fault sb (SelectSingle uid) = Some (StoreError m)"
  then show "get_profile sb req w =
        (Responded 404 (JObj [(''error'', if m \<noteq> [] then JStr m else JObj [(''message'', JStr m)])]),
         w\<lparr>calls := calls w @ [GetUser (getBearerToken req), SelectSingle uid]\<rparr>)"
    unfolding get_profile_def by (simp add: js_defs field_def Let_def)
next
  assume "truthy (getBearerToken req) \<and> getUser sb (getBearerToken req) = Resolved resp \<and>
        get_prop resp ''error'' = Inr err \<and> \<not> truthy err \<and>
        get_prop resp ''data'' = Inr data \<and> truthy (opt_chain data ''user'') \<and>
        get_prop (opt_chain data ''user'') ''id'' = Inr uid \<and>
        fault sb (SelectSingle uid) = None \<and> single_row uid (profiles w) = None"
  then show "get_profile sb req w =
        (Responded 404 (JObj [(''error'',
            JStr ''JSON object requested, multiple (or no) rows returned'')]),
         w\<lparr>calls := calls w @ [GetUser (getBearerToken req), SelectSingle uid]\<rparr>)"
    unfolding get_profile_def by (simp add: js_defs field_def Let_def)
next
  assume a: "truthy (getBearerToken req) \<and> getUser sb (getBearerToken req) = Resolved resp \<and>
        get_prop resp ''error'' = Inr err \<and> \<not> truthy err \<and>
        get_prop resp ''data'' = Inr data \<and> truthy (opt_chain data ''user'') \<and>
        get_prop (opt_chain data ''user'') ''id'' = Inr uid \<and>
        fault sb (SelectSingle uid) = None \<and> single_row uid (profiles w) = Some r"
  then show "get_profile sb req w =
        (Responded 200 (JObj [(''profile'', JObj r)]),
         w\<lparr>calls := calls w @ [GetUser (getBearerToken req), SelectSingle uid]\<rparr>)"
    unfolding get_profile_def by (simp add: js_defs field_def Let_def)
  from a have "row_has_id uid r \<and> r \<in> set (profiles w)"
    using single_rowD [of uid "profiles w" r] by simp
  then show "r \<in> set (profiles w)" and "map_of r ''id'' = Some uid"
    by (simp_all add: row_has_id_def)
qed



theorem get_profile_statuses_witness:
  "get_profile happy_store alice_login alice_world =
     (Responded 401 (JObj [(''error'', JStr ''missing access token in Authorization header'')]),
      alice_world)
   \<and> get_profile happy_store (alice_get\<lparr>authorization := Some ''Bearer expired''\<rparr>) alice_world =
     (Responded 401 (JObj [(''error'', JStr ''invalid JWT'')]),
      alice_world\<lparr>calls := [GetUser (JStr ''expired'')]\<rparr>)
   \<and> get_profile no_user_for_token_store alice_get alice_world =
     (Responded 401 (JObj [(''error'', JStr ''invalid token'')]),
      alice_world\<lparr>calls := [GetUser (JStr ''tok1'')]\<rparr>)
   \<and> get_profile select_failing_store alice_get alice_world =
     (Responded 404 (JObj [(''error'', JStr ''permission denied'')]),
      alice_world\<lparr>calls := [GetUser (JStr ''tok1''), SelectSingle (JStr ''u1'')]\<rparr>)
   \<and> get_profile happy_store alice_get empty_world =
     (Responded 404 (JObj [(''error'',
         JStr ''JSON object requested, multiple (or no) rows returned'')]),
      empty_world\<lparr>calls := [GetUser (JStr ''tok1''), SelectSingle (JStr ''u1'')]\<rparr>)
   \<and> get_profile happy_store alice_get alice_world =
     (Responded 200 (JObj [(''profile'', JObj alice_profile)]),
      alice_world\<lparr>calls := [GetUser (JStr ''tok1''), SelectSingle (JStr ''u1'')]\<rparr>)"
  using
    get_profile_statuses [where req = alice_login and sb = happy_store and w = alice_world]
    get_profile_statuses [where req = "alice_get\<lparr>authorization := Some ''Bearer expired''\<rparr>"
      and sb = happy_store and w = alice_world
      and resp = "JObj [(''data'', JObj [(''user'', JNull)]),
              (''error'', JObj [(''message'', JStr ''invalid JWT'')])]"
      and err = "JObj [(''message'', JStr ''invalid JWT'')]"]
    get_profile_statuses [where req = alice_get and sb = no_user_for_token_store
      and w = alice_world
      and resp = "JObj [(''data'', JObj [(''user'', JNull)]), (''error'', JNull)]"
      and err = JNull and data = "JObj [(''user'', JNull)]"]
    get_profile_statuses [where req = alice_get and sb = select_failing_store and w = alice_world
      and resp = "JObj [(''data'', JObj [(''user'', alice_identity)]), (''error'', JNull)]"
      and err = JNull and data = "JObj [(''user'', alice_identity)]" and uid = "JStr ''u1''"
      and m = "''permission denied''"]
    get_profile_statuses [where req = alice_get and sb = happy_store and w = empty_world
      and resp = "JObj [(''data'', JObj [(''user'', alice_identity)]), (''error'', JNull)]"
      and err = JNull and data = "JObj [(''user'', alice_identity)]" and uid = "JStr ''u1''"]
    get_profile_statuses [where req = alice_get and sb = happy_store and w = alice_world
      and resp = "JObj [(''data'', JObj [(''user'', alice_identity)]), (''error'', JNull)]"
      and err = JNull and data = "JObj [(''user'', alice_identity)]" and uid = "JStr ''u1''"
      and r = alice_profile]
  by (simp add: alice_identity_def alice_session_def alice_profile_def happy_store_def
      empty_world_def alice_login_def alice_world_def alice_get_def no_user_for_token_store_def
      select_failing_store_def getBearerToken_def field_def or_js_def opt_chain_def
      single_row_def row_has_id_def)

text \<open>A store call that rejects ends in the handler's \<^verbatim>\<open>catch\<close>.\<close>

lemma get_profile_getUser_rejected:
  assumes "truthy (getBearerToken req)"
    and "getUser sb (getBearerToken req) = Rejected e"
  shows "get_profile sb req w =
    (Responded 500 (JObj [(''error'', JStr ''internal server error'')]),
     w\<lparr>calls := calls w @ [GetUser (getBearerToken req)]\<rparr>)"
  unfolding get_profile_def using assms by (simp add: run_defs Let_def)

lemma get_profile_fetch_rejected:
  assumes "truthy (getBearerToken req)"
    and "getUser sb (getBearerToken req) = Resolved resp"
    and "get_prop resp ''error'' = Inr err" "\<not> truthy err"
    and "get_prop resp ''data'' = Inr data" "truthy (opt_chain data ''user'')"
    and "get_prop (opt_chain data ''user'') ''id'' = Inr uid"
    and "fault sb (SelectSingle uid) = Some (Throws e)"
  shows "get_profile sb req w =
    (Responded 500 (JObj [(''error'', JStr ''internal server error'')]),
     w\<lparr>calls := calls w @ [GetUser (getBearerToken req), SelectSingle uid]\<rparr>)"
  unfolding get_profile_def using assms by (simp add: run_defs Let_def)

section \<open>The Authorization header\<close>

text \<open>
  C10. A request whose Authorization header (the empty string when there is none) does
  not split at single spaces into exactly two parts, the first of them \<^verbatim>\<open>Bearer\<close>: the
  token extracted is \<open>null\<close>, and both \<^verbatim>\<open>GET /auth/profile\<close> and \<^verbatim>\<open>PUT /auth/profile\<close> answer
  401 and leave the world as it was, the log of store calls included: no call was made.
\<close>

theorem malformed_authorization_is_401:
  assumes "\<not> (length (split CHR '' '' (case authorization req of None \<Rightarrow> [] | Some s \<Rightarrow> s)) = 2
      \<and> split CHR '' '' (case authorization req of None \<Rightarrow> [] | Some s \<Rightarrow> s) ! 0 = ''Bearer'')"
  shows "getBearerToken req = JNull
    \<and> get_profile sb req w =
        (Responded 401 (JObj [(''error'', JStr ''missing access token in Authorization header'')]), w)
    \<and> put_profile sb now req w =
        (Responded 401 (JObj [(''error'', JStr ''missing access token in Authorization header'')]), w)"
proof -
  from assms have token: "getBearerToken req = JNull"
    by (auto simp add: getBearerToken_def Let_def)
  have "get_profile sb req w =
      (Responded 401 (JObj [(''error'', JStr ''missing access token in Authorization header'')]), w)"
    unfolding get_profile_def by (simp add: token js_defs)
  moreover have "put_profile sb now req w =
      (Responded 401 (JObj [(''error'', JStr ''missing access token in Authorization header'')]), w)"
    unfolding put_profile_def by (simp add: token js_defs)
  ultimately show ?thesis using token by simp
qed

theorem malformed_authorization_is_401_witness:
  "(getBearerToken (alice_get\<lparr>authorization := Some ''bearer tok1''\<rparr>) = JNull
    \<and> get_profile happy_store (alice_get\<lparr>authorization := Some ''bearer tok1''\<rparr>) alice_world =
        (Responded 401 (JObj [(''error'', JStr ''missing access token in Authorization header'')]),
         alice_world))
   \<and> (getBearerToken (alice_get\<lparr>authorization := Some ''Bearer''\<rparr>) = JNull
    \<and> put_profile happy_store ''2026-01-01T00:00:00.000Z''
          (alice_get\<lparr>authorization := Some ''Bearer''\<rparr>) alice_world =
        (Responded 401 (JObj [(''error'', JStr ''missing access token in Authorization header'')]),
         alice_world))
   \<and> (getBearerToken (alice_get\<lparr>authorization := Some ''Bearer tok1 extra''\<rparr>) = JNull
    \<and> get_profile happy_store (alice_get\<lparr>authorization := Some ''Bearer tok1 extra''\<rparr>) alice_world =
        (Responded 401 (JObj [(''error'', JStr ''missing access token in Authorization header'')]),
         alice_world))"
  using
    malformed_authorization_is_401 [where req = "alice_get\<lparr>authorization := Some ''bearer tok1''\<rparr>"
      and sb = happy_store and w = alice_world]
    malformed_authorization_is_401 [where req = "alice_get\<lparr>authorization := Some ''Bearer''\<rparr>"
      and sb = happy_store and w = alice_world and now = "''2026-01-01T00:00:00.000Z''"]
    malformed_authorization_is_401 [where req = "alice_get\<lparr>authorization := Some ''Bearer tok1 extra''\<rparr>"
      and sb = happy_store and w = alice_world]
  by (simp add: alice_get_def)

section \<open>Errors at the handler's boundary\<close>

text \<open>
  Each handler of \<^verbatim>\<open>server.js\<close> wraps its body in \<^verbatim>\<open>try\<close>/\<^verbatim>\<open>catch\<close>: whatever the request and
  whatever the store does, it leaves a response and no uncaught exception.
\<close>

lemma run_try_catch_responds:
  "fst (run (try_catch m internal_server_error) w) \<noteq> Uncaught e"
  by (simp add: run_def try_catch_def internal_server_error_def respond_def
      split: prod.splits sum.splits)

lemma server_handlers_catch:
  "fst (signup sb req w) \<noteq> Uncaught e"
  "fst (login sb req w) \<noteq> Uncaught e"
  "fst (get_profile sb req w) \<noteq> Uncaught e"
  "fst (put_profile sb now req w) \<noteq> Uncaught e"
  unfolding signup_def login_def get_profile_def put_profile_def
  by (rule run_try_catch_responds)+

section \<open>The legacy routes\<close>

text \<open>
  C6. Not every handler catches at its own boundary: \<^verbatim>\<open>getAllUsers\<close> has no \<^verbatim>\<open>try\<close>, and
  when the database fails its query the rejection leaves the handler uncaught, with no
  response sent.
\<close>

theorem getAllUsers_rejection_is_uncaught:
  "getAllUsers unreachable_database [bob_row] bob_login =
     Uncaught (Rejection (JObj [(''message'', JStr ''connect ECONNREFUSED'')]))"
  by (simp add: getAllUsers_def pool_query_def unreachable_database_def working_libs_def)

text \<open>So does \<^verbatim>\<open>loginUser\<close>, whose query is not inside a \<^verbatim>\<open>try\<close> either.\<close>

lemma loginUser_rejection_is_uncaught:
  assumes "body req = JObj b" and "query_fault lib (SelectAllWhereEmail (field b ''email'')) = Some e"
  shows "loginUser lib users req = Uncaught (Rejection e)"
  using assms by (simp add: loginUser_def pool_query_def)

text \<open>
  C7. \<^verbatim>\<open>GET /api/users\<close>, when the database answers the query: for every state of the users
  table the response is 200 with one entry for each row, in the table's order, whose
  fields are exactly \<open>id\<close>, \<open>name\<close> and \<open>skills\<close> with the row's values; no entry has a
  \<open>password\<close> field.
\<close>

theorem getAllUsers_lists_id_name_skills:
  assumes "query_fault lib SelectIdNameSkills = None"
  shows "getAllUsers lib users req =
      Responded 200 (JArr (map (\<lambda>r. JObj [(''id'', column r ''id''), (''name'', column r ''name''),
          (''skills'', column r ''skills'')]) users))
    \<and> (\<forall>entry \<in> set (map (\<lambda>r. [(''id'', column r ''id''), (''name'', column r ''name''),
          (''skills'', column r ''skills'')]) users).
         map fst entry = [''id'', ''name'', ''skills''] \<and> map_of entry ''password'' = None)"
  using assms by (simp add: getAllUsers_def pool_query_def)

theorem getAllUsers_lists_id_name_skills_witness:
  "getAllUsers working_libs [bob_row] bob_login =
     Responded 200 (JArr [JObj [(''id'', JNum 1), (''name'', JStr ''Bob''), (''skills'', JStr ''guitar'')]])"
  using getAllUsers_lists_id_name_skills [of working_libs "[bob_row]" bob_login]
  by (simp add: working_libs_def bob_row_def column_def)

text \<open>
  C9. Legacy login, when the database answers, the first row with the request's email is
  \<open>found\<close>, \<^verbatim>\<open>bcrypt.compare\<close> accepts the request's password against that row's
  \<open>password\<close> column and the token is signed: the response is 200 and its \<open>user\<close> is the
  whole row as stored, so its \<open>password\<close> field is the stored hash.
\<close>

theorem loginUser_returns_stored_row:
  assumes "body req = JObj b"
    and "query_fault lib (SelectAllWhereEmail (field b ''email'')) = None"
    and "filter (\<lambda>r. sql_eq (column r ''email'') (field b ''email'')) users = found # others"
    and "bcrypt_compare lib (field b ''password'') (field found ''password'') = Resolved True"
    and "jwt_sign lib (JObj [(''id'', field found ''id'')]) = Inr token"
  shows "loginUser lib users req =
      Responded 200 (JObj [(''token'', JStr token), (''user'', JObj found)])
    \<and> found \<in> set users
    \<and> get_prop (JObj found) ''password'' = Inr (field found ''password'')"
proof -
  have "found \<in> set (filter (\<lambda>r. sql_eq (column r ''email'') (field b ''email'')) users)"
    using assms(3) by simp
  then have "found \<in> set users" by simp
  moreover have "loginUser lib users req =
      Responded 200 (JObj [(''token'', JStr token), (''user'', JObj found)])"
    using assms by (simp add: loginUser_def pool_query_def)
  ultimately show ?thesis by simp
qed

theorem loginUser_returns_stored_row_witness:
  "loginUser working_libs [bob_row] bob_login =
     Responded 200 (JObj [(''token'', JStr ''eyJhbGciOi''), (''user'', JObj bob_row)])
   \<and> get_prop (JObj bob_row) ''password'' = Inr (JStr ''$2b$10$N9qo8uLOickgx2ZMRZoMye'')"
  using loginUser_returns_stored_row [where req = bob_login and lib = working_libs
      and users = "[bob_row]" and found = bob_row and others = "[]" and token = "''eyJhbGciOi''"
      and b = "[(''email'', JStr ''bob@x.com''), (''password'', JStr ''hunter2'')]"]
  by (simp add: working_libs_def bob_row_def bob_login_def column_def field_def sql_eq_def)

section \<open>Update profile\<close>

subsection \<open>What an update does to a row\<close>

lemma map_of_apply_updates:
  "distinct (map fst ups) \<Longrightarrow>
   map_of (apply_updates ups r) c =
     (case map_of ups c of Some v \<Rightarrow> Some v | None \<Rightarrow> map_of r c)"
proof (induction ups arbitrary: r)
  case Nil
  show ?case by simp
next
  case (Cons kv ups)
  from Cons.prems have fresh: "map_of ups (fst kv) = None" and d: "distinct (map fst ups)"
    by (simp_all add: map_of_eq_None_iff)
  show ?case
  proof (cases "c = fst kv")
    case True
    with fresh Cons.IH [OF d] show ?thesis
      by (cases kv) (simp add: update_conv')
  next
    case False
    with Cons.IH [OF d] show ?thesis
      by (cases kv) (simp add: update_conv' split: option.splits)
  qed
qed

lemma map_of_strip_undefined:
  "distinct (map fst xs) \<Longrightarrow>
   map_of (strip_undefined xs) c =
     (case map_of xs c of Some v \<Rightarrow> if v = JUndefined then None else Some v | None \<Rightarrow> None)"
proof (induction xs)
  case Nil
  show ?case by (simp add: strip_undefined_def)
next
  case (Cons kv xs)
  from Cons.prems have fresh: "map_of xs (fst kv) = None" and d: "distinct (map fst xs)"
    by (simp_all add: map_of_eq_None_iff)
  from Cons.IH [OF d] fresh show ?case
    by (cases kv) (auto simp add: strip_undefined_def split: option.splits)
qed

lemma distinct_strip_undefined:
  "distinct (map fst xs) \<Longrightarrow> distinct (map fst (strip_undefined xs))"
  by (simp add: strip_undefined_def distinct_map_filter)

subsection \<open>The updates collected from a body\<close>

lemma collect_updates_JObj: "\<exists>ups. collect_updates ks (JObj b) acc = Inr ups"
  by (induction ks arbitrary: acc) simp_all

lemma collect_updates_distinct:
  "distinct (map fst acc) \<Longrightarrow> collect_updates ks bd acc = Inr ups \<Longrightarrow> distinct (map fst ups)"
proof (induction ks arbitrary: acc)
  case Nil
  then show ?case by simp
next
  case (Cons k ks)
  from Cons.prems(2) consider
      "collect_updates ks bd acc = Inr ups"
    | v where "collect_updates ks bd (AList.update k v acc) = Inr ups"
    by (auto split: sum.splits if_splits)
  then show ?case
  proof cases
    case 1
    with Cons.IH Cons.prems(1) show ?thesis by blast
  next
    case 2
    moreover have "distinct (map fst (AList.update k v acc))"
      using Cons.prems(1) by (rule distinct_update)
    ultimately show ?thesis using Cons.IH by blast
  qed
qed

lemma collect_updates_map_of:
  "collect_updates ks (JObj b) acc = Inr ups \<Longrightarrow>
   map_of ups c = (if c \<in> set ks \<and> map_of b c \<noteq> None then map_of b c else map_of acc c)"
proof (induction ks arbitrary: acc)
  case Nil
  then show ?case by simp
next
  case (Cons k ks)
  show ?case
  proof (cases "map_of b k")
    case None
    with Cons.prems have "collect_updates ks (JObj b) acc = Inr ups" by simp
    from Cons.IH [OF this] None show ?thesis by auto
  next
    case (Some v)
    with Cons.prems have "collect_updates ks (JObj b) (AList.update k v acc) = Inr ups"
      by (simp add: field_def)
    from Cons.IH [OF this] Some show ?thesis by (auto simp add: update_conv')
  qed
qed

lemma updated_at_not_allowed: "''updated_at'' \<notin> set allowed"
  by (simp add: allowed_def)

lemma payload_row:
  assumes "collect_updates allowed (JObj b) [] = Inr ups"
  shows "map_of (apply_updates (strip_undefined (AList.update ''updated_at'' (JStr now) ups)) r) c =
    (if c = ''updated_at'' then Some (JStr now)
     else if c \<in> set allowed
       then (case map_of b c of
               Some v \<Rightarrow> if v = JUndefined then map_of r c else Some v
             | None \<Rightarrow> map_of r c)
     else map_of r c)"
proof -
  have d: "distinct (map fst ups)"
    using collect_updates_distinct [OF _ assms] by simp
  then have d': "distinct (map fst (AList.update ''updated_at'' (JStr now) ups))"
    by (rule distinct_update)
  have m: "map_of ups c = (if c \<in> set allowed \<and> map_of b c \<noteq> None then map_of b c else None)"
    using collect_updates_map_of [OF assms, of c] by simp
  show ?thesis
    using updated_at_not_allowed
    by (auto simp add: map_of_apply_updates [OF distinct_strip_undefined [OF d']]
        map_of_strip_undefined [OF d'] update_conv' m split: option.splits)
qed

lemma collect_updates_empty_iff:
  assumes "collect_updates allowed (JObj b) [] = Inr ups"
  shows "ups = [] \<longleftrightarrow> (\<forall>k \<in> set allowed. map_of b k = None)"
proof
  assume "ups = []"
  with collect_updates_map_of [OF assms] show "\<forall>k \<in> set allowed. map_of b k = None"
    by (metis map_of.simps(1))
next
  assume none: "\<forall>k \<in> set allowed. map_of b k = None"
  have "map_of ups c = None" for c
    using collect_updates_map_of [OF assms, of c] none by auto
  then have "fst ` set ups = {}"
    by (metis map_of_eq_None_iff all_not_in_conv)
  then show "ups = []" by simp
qed


subsection \<open>What the handler does to the table\<close>

lemma collect_updates_JArr: "collect_updates ks (JArr xs) acc = Inr acc"
  by (induction ks arbitrary: acc) simp_all

lemma collect_updates_nonempty_JObj:
  assumes "collect_updates allowed bd [] = Inr ups" and "ups \<noteq> []"
  shows "\<exists>b. bd = JObj b"
  using assms by (cases bd) (simp_all add: allowed_def collect_updates_JArr)

lemma put_profile_profiles:
  "profiles (snd (put_profile sb now req w)) = profiles w
   \<or> (\<exists>ups resp data uid.
        collect_updates allowed (body req) [] = Inr ups \<and> ups \<noteq> []
        \<and> getUser sb (getBearerToken req) = Resolved resp
        \<and> get_prop resp ''data'' = Inr data
        \<and> get_prop (opt_chain data ''user'') ''id'' = Inr uid
        \<and> profiles (snd (put_profile sb now req w)) =
            map (\<lambda>r. if row_has_id uid r
                   then apply_updates (strip_undefined (AList.update ''updated_at'' (JStr now) ups)) r
                   else r) (profiles w))"
  unfolding put_profile_def
  by (simp add: run_defs Let_def field_def
      split: sum.splits outcome.splits option.splits fault.splits prod.splits)

lemma put_profile_200:
  assumes "put_profile sb now req w = (Responded 200 p, w')"
  shows "\<exists>ups resp data uid.
        collect_updates allowed (body req) [] = Inr ups \<and> ups \<noteq> []
        \<and> getUser sb (getBearerToken req) = Resolved resp
        \<and> get_prop resp ''data'' = Inr data
        \<and> get_prop (opt_chain data ''user'') ''id'' = Inr uid
        \<and> profiles w' =
            map (\<lambda>r. if row_has_id uid r
                   then apply_updates (strip_undefined (AList.update ''updated_at'' (JStr now) ups)) r
                   else r) (profiles w)"
  using assms unfolding put_profile_def
  by (auto simp add: run_defs Let_def field_def
      split: sum.splits outcome.splits option.splits fault.splits prod.splits if_splits)


lemma map_of_filter_keys:
  "k \<in> S \<Longrightarrow> map_of (filter (\<lambda>kv. fst kv \<in> S) b) k = map_of b k"
  by (induction b) auto

lemma collect_updates_filter:
  "set ks \<subseteq> S \<Longrightarrow>
   collect_updates ks (JObj (filter (\<lambda>kv. fst kv \<in> S) b)) acc = collect_updates ks (JObj b) acc"
  by (induction ks arbitrary: acc) (simp_all add: map_of_filter_keys field_def)

lemma put_profile_body_cong:
  assumes "collect_updates allowed (body req') [] = collect_updates allowed (body req) []"
    and "authorization req' = authorization req"
  shows "put_profile sb now req' w = put_profile sb now req w"
  unfolding put_profile_def getBearerToken_def using assms by (simp cong: if_cong)

text \<open>
  A request whose bearer token the store resolves to a user with id \<open>uid\<close>, and whose body
  is an object \<open>b\<close>; \<open>res\<close> and \<open>w'\<close> are the response and the world after.
\<close>

lemma put_profile_object_body:
  assumes token: "truthy (getBearerToken req)"
    and resolved: "getUser sb (getBearerToken req) = Resolved resp"
      "get_prop resp ''error'' = Inr err" "\<not> truthy err"
      "get_prop resp ''data'' = Inr data" "truthy (opt_chain data ''user'')"
      "get_prop (opt_chain data ''user'') ''id'' = Inr uid"
    and b: "body req = JObj b"
    and run: "put_profile sb now req w = (res, w')"
  shows "put_profile sb now (req\<lparr>body := JObj (filter (\<lambda>kv. fst kv \<in> set allowed) b)\<rparr>) w = (res, w')
    \<and> ((\<forall>k \<in> set allowed. map_of b k = None) \<longrightarrow>
          res = Responded 400 (JObj [(''error'', JStr ''no updatable fields provided'')])
          \<and> w' = w\<lparr>calls := calls w @ [GetUser (getBearerToken req)]\<rparr>)
    \<and> length (profiles w') = length (profiles w)
    \<and> (\<forall>i < length (profiles w). \<forall>c. c \<notin> set allowed \<longrightarrow> c \<noteq> ''updated_at'' \<longrightarrow>
          map_of (profiles w' ! i) c = map_of (profiles w ! i) c)
    \<and> (\<forall>i < length (profiles w).
          profiles w' ! i = profiles w ! i
          \<or> (row_has_id uid (profiles w ! i) \<and> (\<exists>k \<in> set allowed. map_of b k \<noteq> None)
             \<and> (\<forall>c. map_of (profiles w' ! i) c =
                  (if c = ''updated_at'' then Some (JStr now)
                   else if c \<in> set allowed
                     then (case map_of b c of
                             Some v \<Rightarrow> if v = JUndefined then map_of (profiles w ! i) c else Some v
                           | None \<Rightarrow> map_of (profiles w ! i) c)
                   else map_of (profiles w ! i) c))))
    \<and> ((\<exists>p. res = Responded 200 p) \<longrightarrow>
          (\<exists>k \<in> set allowed. map_of b k \<noteq> None)
          \<and> (\<forall>i < length (profiles w). row_has_id uid (profiles w ! i) \<longrightarrow>
               (\<forall>c. map_of (profiles w' ! i) c =
                  (if c = ''updated_at'' then Some (JStr now)
                   else if c \<in> set allowed
                     then (case map_of b c of
                             Some v \<Rightarrow> if v = JUndefined then map_of (profiles w ! i) c else Some v
                           | None \<Rightarrow> map_of (profiles w ! i) c)
                   else map_of (profiles w ! i) c))))"
proof -
  obtain ups where ups: "collect_updates allowed (JObj b) [] = Inr ups"
    using collect_updates_JObj by blast
  let ?payload = "strip_undefined (AList.update ''updated_at'' (JStr now) ups)"
  let ?upd = "\<lambda>r. if row_has_id uid r then apply_updates ?payload r else r"
  let ?F = "\<lambda>r c. if c = ''updated_at'' then Some (JStr now)
                   else if c \<in> set allowed
                     then (case map_of b c of
                             Some v \<Rightarrow> if v = JUndefined then map_of r c else Some v
                           | None \<Rightarrow> map_of r c)
                   else map_of r c"
  have F: "map_of (apply_updates ?payload r) c = ?F r c" for r c
    by (rule payload_row [OF ups])
  have present: "ups \<noteq> [] \<longleftrightarrow> (\<exists>k \<in> set allowed. map_of b k \<noteq> None)"
    using collect_updates_empty_iff [OF ups] by simp

  have dropped: "put_profile sb now (req\<lparr>body := JObj (filter (\<lambda>kv. fst kv \<in> set allowed) b)\<rparr>) w
      = (res, w')"
    using put_profile_body_cong [of "req\<lparr>body := JObj (filter (\<lambda>kv. fst kv \<in> set allowed) b)\<rparr>"
        req sb now w] run b
    by (simp add: collect_updates_filter)

  have none: "res = Responded 400 (JObj [(''error'', JStr ''no updatable fields provided'')])
          \<and> w' = w\<lparr>calls := calls w @ [GetUser (getBearerToken req)]\<rparr>"
    if "\<forall>k \<in> set allowed. map_of b k = None"
  proof -
    from that present have "ups = []" by auto
    with ups b have "collect_updates allowed (body req) [] = Inr []" by simp
    with run token resolved show ?thesis
      unfolding put_profile_def by (simp add: run_defs Let_def)
  qed

  have world: "profiles w' = profiles w
      \<or> (ups \<noteq> [] \<and> profiles w' = map ?upd (profiles w))"
    using put_profile_profiles [of sb now req w] run resolved ups b by auto

  have applied: "ups \<noteq> [] \<and> profiles w' = map ?upd (profiles w)" if "\<exists>p. res = Responded 200 p"
  proof -
    from that obtain p where "put_profile sb now req w = (Responded 200 p, w')"
      using run by auto
    from put_profile_200 [OF this] resolved ups b show ?thesis by auto
  qed

  have len: "length (profiles w') = length (profiles w)"
    using world by auto
  have rows: "profiles w' ! i = profiles w ! i
      \<or> (row_has_id uid (profiles w ! i) \<and> (\<exists>k \<in> set allowed. map_of b k \<noteq> None)
         \<and> (\<forall>c. map_of (profiles w' ! i) c = ?F (profiles w ! i) c))"
    if "i < length (profiles w)" for i
  proof (cases "profiles w' = profiles w")
    case True
    then show ?thesis by simp
  next
    case False
    with world have changed: "ups \<noteq> []" "profiles w' = map ?upd (profiles w)"
      by simp_all
    show ?thesis
    proof (cases "row_has_id uid (profiles w ! i)")
      case True
      with changed that present show ?thesis by (simp add: F)
    next
      case False
      with changed that show ?thesis by simp
    qed
  qed
  have frame: "map_of (profiles w' ! i) c = map_of (profiles w ! i) c"
    if "i < length (profiles w)" "c \<notin> set allowed" "c \<noteq> ''updated_at''" for i c
    using rows [OF that(1)] that(2,3) by auto
  have success: "(\<exists>k \<in> set allowed. map_of b k \<noteq> None)
      \<and> (\<forall>i < length (profiles w). row_has_id uid (profiles w ! i) \<longrightarrow>
           (\<forall>c. map_of (profiles w' ! i) c = ?F (profiles w ! i) c))"
    if "\<exists>p. res = Responded 200 p"
    using applied [OF that] present by (simp add: F)

  show ?thesis
  proof (intro conjI)
    show "put_profile sb now (req\<lparr>body := JObj (filter (\<lambda>kv. fst kv \<in> set allowed) b)\<rparr>) w
        = (res, w')"
      by (rule dropped)
    show "(\<forall>k \<in> set allowed. map_of b k = None) \<longrightarrow>
          res = Responded 400 (JObj [(''error'', JStr ''no updatable fields provided'')])
          \<and> w' = w\<lparr>calls := calls w @ [GetUser (getBearerToken req)]\<rparr>"
      using none by simp
    show "length (profiles w') = length (profiles w)"
      by (rule len)
    show "\<forall>i < length (profiles w). \<forall>c. c \<notin> set allowed \<longrightarrow> c \<noteq> ''updated_at'' \<longrightarrow>
          map_of (profiles w' ! i) c = map_of (profiles w ! i) c"
      using frame by simp
    show "\<forall>i < length (profiles w).
          profiles w' ! i = profiles w ! i
          \<or> (row_has_id uid (profiles w ! i) \<and> (\<exists>k \<in> set allowed. map_of b k \<noteq> None)
             \<and> (\<forall>c. map_of (profiles w' ! i) c = ?F (profiles w ! i) c))"
      using rows by simp
    show "(\<exists>p. res = Responded 200 p) \<longrightarrow>
          (\<exists>k \<in> set allowed. map_of b k \<noteq> None)
          \<and> (\<forall>i < length (profiles w). row_has_id uid (profiles w ! i) \<longrightarrow>
               (\<forall>c. map_of (profiles w' ! i) c = ?F (profiles w ! i) c))"
      using success by simp
  qed
qed

lemmas eval_defs = run_defs opt_chain_def or_js_def field_def allowed_def row_has_id_def
  single_row_def strip_undefined_def getBearerToken_def Let_def

subsection \<open>The update the handler sends\<close>

text \<open>
  The loop over \<^verbatim>\<open>allowed\<close> collects, in the order \<open>username\<close>, \<open>full_name\<close>, \<open>avatar_url\<close>,
  \<open>role\<close>, the fields the body has; \<open>updated_at\<close> is put last.
\<close>

lemma update_fresh: "k \<notin> fst ` set al \<Longrightarrow> AList.update k v al = al @ [(k, v)]"
  by (induction al) auto

lemma collect_updates_explicit:
  "distinct ks \<Longrightarrow> fst ` set acc \<inter> set ks = {} \<Longrightarrow>
   collect_updates ks (JObj b) acc = Inr (acc @ [(k, field b k). k \<leftarrow> ks, map_of b k \<noteq> None])"
proof (induction ks arbitrary: acc)
  case Nil
  show ?case by simp
next
  case (Cons k ks)
  from Cons.prems have fresh: "k \<notin> fst ` set acc" and d: "distinct ks" and k: "k \<notin> set ks"
    and disj: "fst ` set acc \<inter> set ks = {}"
    by auto
  show ?case
  proof (cases "map_of b k")
    case None
    with Cons.IH [OF d disj] show ?thesis by simp
  next
    case (Some v)
    have "fst ` set (acc @ [(k, field b k)]) \<inter> set ks = {}"
      using disj k by auto
    from Cons.IH [OF d this] Some fresh show ?thesis
      by (simp add: update_fresh)
  qed
qed

lemma collect_updates_allowed:
  "collect_updates allowed (JObj b) [] =
     Inr [(k, field b k). k \<leftarrow> [''username'', ''full_name'', ''avatar_url'', ''role''],
            map_of b k \<noteq> None]"
  using collect_updates_explicit [of allowed "[]" b] by (simp add: allowed_def)

lemma put_profile_no_object:
  assumes token: "truthy (getBearerToken req)"
    and resolved: "getUser sb (getBearerToken req) = Resolved resp"
      "get_prop resp ''error'' = Inr err" "\<not> truthy err"
      "get_prop resp ''data'' = Inr data" "truthy (opt_chain data ''user'')"
    and body: "\<forall>b. body req \<noteq> JObj b" "\<forall>xs. body req \<noteq> JArr xs"
  shows "put_profile sb now req w =
    (Responded 500 (JObj [(''error'', JStr ''internal server error'')]),
     w\<lparr>calls := calls w @ [GetUser (getBearerToken req)]\<rparr>)"
proof -
  have "collect_updates allowed (body req) [] = Inl TypeError"
    using body by (cases "body req") (simp_all add: allowed_def)
  with token resolved show ?thesis
    unfolding put_profile_def by (simp add: run_defs Let_def)
qed

lemma put_profile_nothing_to_update:
  assumes token: "truthy (getBearerToken req)"
    and resolved: "getUser sb (getBearerToken req) = Resolved resp"
      "get_prop resp ''error'' = Inr err" "\<not> truthy err"
      "get_prop resp ''data'' = Inr data" "truthy (opt_chain data ''user'')"
    and none: "\<forall>k \<in> {''username'', ''full_name'', ''avatar_url'', ''role''}.
        has_prop k (body req) = Inr False"
  shows "put_profile sb now req w =
    (Responded 400 (JObj [(''error'', JStr ''no updatable fields provided'')]),
     w\<lparr>calls := calls w @ [GetUser (getBearerToken req)]\<rparr>)"
proof -
  have "collect_updates allowed (body req) [] = Inr []"
    using none by (cases "body req") (auto simp add: allowed_def)
  with token resolved show ?thesis
    unfolding put_profile_def by (simp add: run_defs Let_def)
qed

lemma put_profile_applied:
  assumes token: "truthy (getBearerToken req)"
    and resolved: "getUser sb (getBearerToken req) = Resolved resp"
      "get_prop resp ''error'' = Inr err" "\<not> truthy err"
      "get_prop resp ''data'' = Inr data" "truthy (opt_chain data ''user'')"
      "get_prop (opt_chain data ''user'') ''id'' = Inr uid"
    and b: "body req = JObj b"
    and present: "\<exists>k \<in> {''username'', ''full_name'', ''avatar_url'', ''role''}. map_of b k \<noteq> None"
    and applied: "fault sb (Update
        ([(k, field b k). k \<leftarrow> [''username'', ''full_name'', ''avatar_url'', ''role''],
            map_of b k \<noteq> None] @ [(''updated_at'', JStr now)]) uid) = None"
    and fetched: "\<forall>e. fault sb (SelectSingle uid) \<noteq> Some (Throws e)"
  shows "\<exists>p. put_profile sb now req w =
    (Responded 200 (JObj [(''profile'', p)]),
     w\<lparr>profiles :=
         map (\<lambda>r. if row_has_id uid r
                then apply_updates (strip_undefined
                  ([(k, field b k). k \<leftarrow> [''username'', ''full_name'', ''avatar_url'', ''role''],
                      map_of b k \<noteq> None] @ [(''updated_at'', JStr now)])) r
                else r) (profiles w),
       calls := calls w @ [GetUser (getBearerToken req),
         Update ([(k, field b k). k \<leftarrow> [''username'', ''full_name'', ''avatar_url'', ''role''],
            map_of b k \<noteq> None] @ [(''updated_at'', JStr now)]) uid,
         SelectSingle uid]\<rparr>)"
proof -
  define ups where "ups = [(k, field b k). k \<leftarrow> [''username'', ''full_name'', ''avatar_url'', ''role''],
            map_of b k \<noteq> None]"
  have collected: "collect_updates allowed (body req) [] = Inr ups"
    using collect_updates_allowed [of b] b by (simp add: ups_def)
  have nonempty: "ups \<noteq> []"
    using collect_updates_empty_iff [of b ups] collected b present by (auto simp add: allowed_def)
  have "fst ` set ups \<subseteq> set allowed"
    by (auto simp add: ups_def allowed_def split: if_splits)
  then have "''updated_at'' \<notin> fst ` set ups"
    using updated_at_not_allowed by blast
  then have stamped: "AList.update ''updated_at'' (JStr now) ups = ups @ [(''updated_at'', JStr now)]"
    by (rule update_fresh)
  from applied have applied': "fault sb (Update (ups @ [(''updated_at'', JStr now)]) uid) = None"
    by (simp add: ups_def)
  have "\<exists>p. put_profile sb now req w =
    (Responded 200 (JObj [(''profile'', p)]),
     w\<lparr>profiles :=
         map (\<lambda>r. if row_has_id uid r
                then apply_updates (strip_undefined (ups @ [(''updated_at'', JStr now)])) r
                else r) (profiles w),
       calls := calls w @ [GetUser (getBearerToken req),
         Update (ups @ [(''updated_at'', JStr now)]) uid,
         SelectSingle uid]\<rparr>)"
    unfolding put_profile_def
    using token resolved collected nonempty stamped applied' fetched
    by (simp add: run_defs Let_def field_def split: option.split fault.split)
  then show ?thesis unfolding ups_def .
qed


text \<open>
  C3. Update-profile, for a request whose bearer token the store resolves to a user with
  id \<open>uid\<close>; \<open>res\<close> and \<open>w'\<close> are the response and the world after. The allow-list is
  \<open>username\<close>, \<open>full_name\<close>, \<open>avatar_url\<close>, \<open>role\<close>.

  \<^item> A body that is neither an object nor an array (so also a request without a body):
    \<^verbatim>\<open>k in req.body\<close> throws and the answer is 500; the only store call is \<^verbatim>\<open>getUser\<close> and
    the table is as it was.
  \<^item> A body with no allow-listed field: the answer is 400, the only store call is
    \<^verbatim>\<open>getUser\<close> and the table is as it was.
  \<^item> Whatever the body and the answer, the table keeps its rows, and no column outside
    the allow-list and \<open>updated_at\<close> changes in any row.
  \<^item> For a body that is an object \<open>b\<close>:

    \<^item> the fields of \<open>b\<close> outside the allow-list are dropped silently: with them removed
      from the body the handler answers the same and leaves the same world;
    \<^item> a row either stays as it is, or it is a row with the user's id, an allow-listed
      field is in \<open>b\<close>, and the row becomes: \<open>updated_at\<close> is \<open>now\<close>, an allow-listed column
      has the body's value when the body has one, every other column is as before;
    \<^item> when the answer is 200, an allow-listed field is in \<open>b\<close> and every row with the
      user's id has been changed in that way;
    \<^item> when an allow-listed field is in \<open>b\<close>, the store applies the update and answers
      the fetch: the answer is 200 with \<^verbatim>\<open>{profile}\<close>, the calls are \<^verbatim>\<open>getUser\<close>, the update
      of the rows with the user's id by the body's allow-listed fields and
      \<open>updated_at = now\<close>, and the fetch; every row with the user's id is changed in that
      way and every other row is as it was.
\<close>

theorem put_profile_allow_list:
  assumes token: "truthy (getBearerToken req)"
    and resolved: "getUser sb (getBearerToken req) = Resolved resp"
      "get_prop resp ''error'' = Inr err" "\<not> truthy err"
      "get_prop resp ''data'' = Inr data" "truthy (opt_chain data ''user'')"
      "get_prop (opt_chain data ''user'') ''id'' = Inr uid"
    and run: "put_profile sb now req w = (res, w')"
  shows "((\<forall>b. body req \<noteq> JObj b) \<and> (\<forall>xs. body req \<noteq> JArr xs) \<longrightarrow>
      res = Responded 500 (JObj [(''error'', JStr ''internal server error'')])
      \<and> w' = w\<lparr>calls := calls w @ [GetUser (getBearerToken req)]\<rparr>)
   \<and> ((\<forall>k \<in> {''username'', ''full_name'', ''avatar_url'', ''role''}. has_prop k (body req) = Inr False) \<longrightarrow>
      res = Responded 400 (JObj [(''error'', JStr ''no updatable fields provided'')])
      \<and> w' = w\<lparr>calls := calls w @ [GetUser (getBearerToken req)]\<rparr>)
   \<and> length (profiles w') = length (profiles w)
   \<and> (\<forall>i < length (profiles w). \<forall>c. c \<notin> {''username'', ''full_name'', ''avatar_url'', ''role''} \<longrightarrow>
      c \<noteq> ''updated_at'' \<longrightarrow> map_of (profiles w' ! i) c = map_of (profiles w ! i) c)
   \<and> (\<forall>b. body req = JObj b \<longrightarrow>
        put_profile sb now (req\<lparr>body := JObj (filter (\<lambda>kv. fst kv \<in> {''username'', ''full_name'', ''avatar_url'', ''role''}) b)\<rparr>) w = (res, w')
      \<and> (\<forall>i < length (profiles w).
          profiles w' ! i = profiles w ! i
          \<or> (row_has_id uid (profiles w ! i)
             \<and> (\<exists>k \<in> {''username'', ''full_name'', ''avatar_url'', ''role''}. map_of b k \<noteq> None)
             \<and> (\<forall>c. map_of (profiles w' ! i) c =
                  (if c = ''updated_at'' then Some (JStr now)
                   else if c \<in> {''username'', ''full_name'', ''avatar_url'', ''role''}
                     then (case map_of b c of
                             Some v \<Rightarrow> if v = JUndefined then map_of (profiles w ! i) c else Some v
                           | None \<Rightarrow> map_of (profiles w ! i) c)
                   else map_of (profiles w ! i) c))))
      \<and> ((\<exists>p. res = Responded 200 p) \<longrightarrow>
          (\<exists>k \<in> {''username'', ''full_name'', ''avatar_url'', ''role''}. map_of b k \<noteq> None)
          \<and> (\<forall>i < length (profiles w). row_has_id uid (profiles w ! i) \<longrightarrow>
               (\<forall>c. map_of (profiles w' ! i) c =
                  (if c = ''updated_at'' then Some (JStr now)
                   else if c \<in> {''username'', ''full_name'', ''avatar_url'', ''role''}
                     then (case map_of b c of
                             Some v \<Rightarrow> if v = JUndefined then map_of (profiles w ! i) c else Some v
                           | None \<Rightarrow> map_of (profiles w ! i) c)
                   else map_of (profiles w ! i) c))))
      \<and> ((\<exists>k \<in> {''username'', ''full_name'', ''avatar_url'', ''role''}. map_of b k \<noteq> None)
          \<and> fault sb (Update
            ([(k, field b k). k \<leftarrow> [''username'', ''full_name'', ''avatar_url'', ''role''],
                map_of b k \<noteq> None] @ [(''updated_at'', JStr now)]) uid) = None
          \<and> (\<forall>e. fault sb (SelectSingle uid) \<noteq> Some (Throws e)) \<longrightarrow>
          (\<exists>p. res = Responded 200 (JObj [(''profile'', p)]))
          \<and> calls w' = calls w @ [GetUser (getBearerToken req),
               Update
                 ([(k, field b k). k \<leftarrow> [''username'', ''full_name'', ''avatar_url'', ''role''],
                     map_of b k \<noteq> None] @ [(''updated_at'', JStr now)]) uid,
               SelectSingle uid]
          \<and> (\<forall>i < length (profiles w). row_has_id uid (profiles w ! i) \<longrightarrow>
               (\<forall>c. map_of (profiles w' ! i) c =
                  (if c = ''updated_at'' then Some (JStr now)
                   else if c \<in> {''username'', ''full_name'', ''avatar_url'', ''role''}
                     then (case map_of b c of
                             Some v \<Rightarrow> if v = JUndefined then map_of (profiles w ! i) c else Some v
                           | None \<Rightarrow> map_of (profiles w ! i) c)
                   else map_of (profiles w ! i) c)))
          \<and> (\<forall>i < length (profiles w). \<not> row_has_id uid (profiles w ! i) \<longrightarrow>
               profiles w' ! i = profiles w ! i)))"
proof -
  have K: "set allowed = {''username'', ''full_name'', ''avatar_url'', ''role''}"
    by (simp add: allowed_def)
  have p1: "((\<forall>b. body req \<noteq> JObj b) \<and> (\<forall>xs. body req \<noteq> JArr xs) \<longrightarrow>
      res = Responded 500 (JObj [(''error'', JStr ''internal server error'')])
      \<and> w' = w\<lparr>calls := calls w @ [GetUser (getBearerToken req)]\<rparr>)"
    using put_profile_no_object [OF token resolved(1-5), of now w] run by auto
  have p2: "((\<forall>k \<in> {''username'', ''full_name'', ''avatar_url'', ''role''}. has_prop k (body req) = Inr False) \<longrightarrow>
      res = Responded 400 (JObj [(''error'', JStr ''no updatable fields provided'')])
      \<and> w' = w\<lparr>calls := calls w @ [GetUser (getBearerToken req)]\<rparr>)"
    using put_profile_nothing_to_update [OF token resolved(1-5), of now w] run by auto
  have unchanged: "profiles w' = profiles w" if "\<forall>b. body req \<noteq> JObj b"
    using put_profile_profiles [of sb now req w] run that collect_updates_nonempty_JObj
    by fastforce
  have p3: "length (profiles w') = length (profiles w)"
  proof (cases "\<exists>b. body req = JObj b")
    case True
    then obtain b where b: "body req = JObj b" by blast
    from put_profile_object_body [OF token resolved b run] show ?thesis by simp
  next
    case False
    with unchanged show ?thesis by simp
  qed
  have p4: "(\<forall>i < length (profiles w). \<forall>c. c \<notin> {''username'', ''full_name'', ''avatar_url'', ''role''} \<longrightarrow>
      c \<noteq> ''updated_at'' \<longrightarrow> map_of (profiles w' ! i) c = map_of (profiles w ! i) c)"
  proof (cases "\<exists>b. body req = JObj b")
    case True
    then obtain b where b: "body req = JObj b" by blast
    from put_profile_object_body [OF token resolved b run, unfolded K] show ?thesis by simp
  next
    case False
    with unchanged show ?thesis by simp
  qed
  have p5: "(\<forall>b. body req = JObj b \<longrightarrow>
        put_profile sb now (req\<lparr>body := JObj (filter (\<lambda>kv. fst kv \<in> {''username'', ''full_name'', ''avatar_url'', ''role''}) b)\<rparr>) w = (res, w')
      \<and> (\<forall>i < length (profiles w).
          profiles w' ! i = profiles w ! i
          \<or> (row_has_id uid (profiles w ! i)
             \<and> (\<exists>k \<in> {''username'', ''full_name'', ''avatar_url'', ''role''}. map_of b k \<noteq> None)
             \<and> (\<forall>c. map_of (profiles w' ! i) c =
                  (if c = ''updated_at'' then Some (JStr now)
                   else if c \<in> {''username'', ''full_name'', ''avatar_url'', ''role''}
                     then (case map_of b c of
                             Some v \<Rightarrow> if v = JUndefined then map_of (profiles w ! i) c else Some v
                           | None \<Rightarrow> map_of (profiles w ! i) c)
                   else map_of (profiles w ! i) c))))
      \<and> ((\<exists>p. res = Responded 200 p) \<longrightarrow>
          (\<exists>k \<in> {''username'', ''full_name'', ''avatar_url'', ''role''}. map_of b k \<noteq> None)
          \<and> (\<forall>i < length (profiles w). row_has_id uid (profiles w ! i) \<longrightarrow>
               (\<forall>c. map_of (profiles w' ! i) c =
                  (if c = ''updated_at'' then Some (JStr now)
                   else if c \<in> {''username'', ''full_name'', ''avatar_url'', ''role''}
                     then (case map_of b c of
                             Some v \<Rightarrow> if v = JUndefined then map_of (profiles w ! i) c else Some v
                           | None \<Rightarrow> map_of (profiles w ! i) c)
                   else map_of (profiles w ! i) c))))
      \<and> ((\<exists>k \<in> {''username'', ''full_name'', ''avatar_url'', ''role''}. map_of b k \<noteq> None)
          \<and> fault sb (Update
            ([(k, field b k). k \<leftarrow> [''username'', ''full_name'', ''avatar_url'', ''role''],
                map_of b k \<noteq> None] @ [(''updated_at'', JStr now)]) uid) = None
          \<and> (\<forall>e. fault sb (SelectSingle uid) \<noteq> Some (Throws e)) \<longrightarrow>
          (\<exists>p. res = Responded 200 (JObj [(''profile'', p)]))
          \<and> calls w' = calls w @ [GetUser (getBearerToken req),
               Update
                 ([(k, field b k). k \<leftarrow> [''username'', ''full_name'', ''avatar_url'', ''role''],
                     map_of b k \<noteq> None] @ [(''updated_at'', JStr now)]) uid,
               SelectSingle uid]
          \<and> (\<forall>i < length (profiles w). row_has_id uid (profiles w ! i) \<longrightarrow>
               (\<forall>c. map_of (profiles w' ! i) c =
                  (if c = ''updated_at'' then Some (JStr now)
                   else if c \<in> {''username'', ''full_name'', ''avatar_url'', ''role''}
                     then (case map_of b c of
                             Some v \<Rightarrow> if v = JUndefined then map_of (profiles w ! i) c else Some v
                           | None \<Rightarrow> map_of (profiles w ! i) c)
                   else map_of (profiles w ! i) c)))
          \<and> (\<forall>i < length (profiles w). \<not> row_has_id uid (profiles w ! i) \<longrightarrow>
               profiles w' ! i = profiles w ! i)))"
  proof (intro allI impI)
    fix b
    assume b: "body req = JObj b"
    note object = put_profile_object_body [OF token resolved b run, unfolded K]
    have q1: "put_profile sb now (req\<lparr>body := JObj (filter (\<lambda>kv. fst kv \<in> {''username'', ''full_name'', ''avatar_url'', ''role''}) b)\<rparr>) w = (res, w')"
      using object by simp
    have q2: "(\<forall>i < length (profiles w).
          profiles w' ! i = profiles w ! i
          \<or> (row_has_id uid (profiles w ! i)
             \<and> (\<exists>k \<in> {''username'', ''full_name'', ''avatar_url'', ''role''}. map_of b k \<noteq> None)
             \<and> (\<forall>c. map_of (profiles w' ! i) c =
                  (if c = ''updated_at'' then Some (JStr now)
                   else if c \<in> {''username'', ''full_name'', ''avatar_url'', ''role''}
                     then (case map_of b c of
                             Some v \<Rightarrow> if v = JUndefined then map_of (profiles w ! i) c else Some v
                           | None \<Rightarrow> map_of (profiles w ! i) c)
                   else map_of (profiles w ! i) c))))"
      using object by simp
    have q3: "((\<exists>p. res = Responded 200 p) \<longrightarrow>
          (\<exists>k \<in> {''username'', ''full_name'', ''avatar_url'', ''role''}. map_of b k \<noteq> None)
          \<and> (\<forall>i < length (profiles w). row_has_id uid (profiles w ! i) \<longrightarrow>
               (\<forall>c. map_of (profiles w' ! i) c =
                  (if c = ''updated_at'' then Some (JStr now)
                   else if c \<in> {''username'', ''full_name'', ''avatar_url'', ''role''}
                     then (case map_of b c of
                             Some v \<Rightarrow> if v = JUndefined then map_of (profiles w ! i) c else Some v
                           | None \<Rightarrow> map_of (profiles w ! i) c)
                   else map_of (profiles w ! i) c))))"
      using object by simp
    have q4: "((\<exists>k \<in> {''username'', ''full_name'', ''avatar_url'', ''role''}. map_of b k \<noteq> None)
          \<and> fault sb (Update
            ([(k, field b k). k \<leftarrow> [''username'', ''full_name'', ''avatar_url'', ''role''],
                map_of b k \<noteq> None] @ [(''updated_at'', JStr now)]) uid) = None
          \<and> (\<forall>e. fault sb (SelectSingle uid) \<noteq> Some (Throws e)) \<longrightarrow>
          (\<exists>p. res = Responded 200 (JObj [(''profile'', p)]))
          \<and> calls w' = calls w @ [GetUser (getBearerToken req),
               Update
                 ([(k, field b k). k \<leftarrow> [''username'', ''full_name'', ''avatar_url'', ''role''],
                     map_of b k \<noteq> None] @ [(''updated_at'', JStr now)]) uid,
               SelectSingle uid]
          \<and> (\<forall>i < length (profiles w). row_has_id uid (profiles w ! i) \<longrightarrow>
               (\<forall>c. map_of (profiles w' ! i) c =
                  (if c = ''updated_at'' then Some (JStr now)
                   else if c \<in> {''username'', ''full_name'', ''avatar_url'', ''role''}
                     then (case map_of b c of
                             Some v \<Rightarrow> if v = JUndefined then map_of (profiles w ! i) c else Some v
                           | None \<Rightarrow> map_of (profiles w ! i) c)
                   else map_of (profiles w ! i) c)))
          \<and> (\<forall>i < length (profiles w). \<not> row_has_id uid (profiles w ! i) \<longrightarrow>
               profiles w' ! i = profiles w ! i))"
    proof (intro impI)
      assume a: "(\<exists>k \<in> {''username'', ''full_name'', ''avatar_url'', ''role''}. map_of b k \<noteq> None)
          \<and> fault sb (Update
            ([(k, field b k). k \<leftarrow> [''username'', ''full_name'', ''avatar_url'', ''role''],
              map_of b k \<noteq> None] @ [(''updated_at'', JStr now)]) uid) = None
          \<and> (\<forall>e. fault sb (SelectSingle uid) \<noteq> Some (Throws e))"
      let ?P = "([(k, field b k). k \<leftarrow> [''username'', ''full_name'', ''avatar_url'', ''role''],
              map_of b k \<noteq> None] @ [(''updated_at'', JStr now)])"
      from a have present: "\<exists>k \<in> {''username'', ''full_name'', ''avatar_url'', ''role''}. map_of b k \<noteq> None"
        and nofault: "fault sb (Update ?P uid) = None"
        and fetched: "\<forall>e. fault sb (SelectSingle uid) \<noteq> Some (Throws e)"
        by simp_all
      from put_profile_applied [OF token resolved b present nofault fetched, of w] run
      obtain p where res: "res = Responded 200 (JObj [(''profile'', p)])"
        and w': "w' = w\<lparr>profiles :=
             map (\<lambda>r. if row_has_id uid r then apply_updates (strip_undefined ?P) r else r)
               (profiles w),
           calls := calls w @ [GetUser (getBearerToken req), Update ?P uid, SelectSingle uid]\<rparr>"
        by auto
      from res have ok: "\<exists>p. res = Responded 200 p" by simp
      have r1: "\<exists>p. res = Responded 200 (JObj [(''profile'', p)])"
        using res by simp
      have r2: "calls w' = calls w @ [GetUser (getBearerToken req), Update ?P uid, SelectSingle uid]"
        using w' by simp
      have r3: "\<forall>i < length (profiles w). row_has_id uid (profiles w ! i) \<longrightarrow>
               (\<forall>c. map_of (profiles w' ! i) c =
                  (if c = ''updated_at'' then Some (JStr now)
                   else if c \<in> {''username'', ''full_name'', ''avatar_url'', ''role''}
                     then (case map_of b c of
                             Some v \<Rightarrow> if v = JUndefined then map_of (profiles w ! i) c else Some v
                           | None \<Rightarrow> map_of (profiles w ! i) c)
                   else map_of (profiles w ! i) c))"
        using q3 ok by simp
      have r4: "\<forall>i < length (profiles w). \<not> row_has_id uid (profiles w ! i) \<longrightarrow>
               profiles w' ! i = profiles w ! i"
        using w' by simp
      from r1 r2 r3 r4 show "(\<exists>p. res = Responded 200 (JObj [(''profile'', p)]))
          \<and> calls w' = calls w @ [GetUser (getBearerToken req),
               Update
                 ?P uid,
               SelectSingle uid]
          \<and> (\<forall>i < length (profiles w). row_has_id uid (profiles w ! i) \<longrightarrow>
               (\<forall>c. map_of (profiles w' ! i) c =
                  (if c = ''updated_at'' then Some (JStr now)
                   else if c \<in> {''username'', ''full_name'', ''avatar_url'', ''role''}
                     then (case map_of b c of
                             Some v \<Rightarrow> if v = JUndefined then map_of (profiles w ! i) c else Some v
                           | None \<Rightarrow> map_of (profiles w ! i) c)
                   else map_of (profiles w ! i) c)))
          \<and> (\<forall>i < length (profiles w). \<not> row_has_id uid (profiles w ! i) \<longrightarrow>
               profiles w' ! i = profiles w ! i)"
        by (intro conjI)
    qed
    from q1 q2 q3 q4
    show "put_profile sb now (req\<lparr>body := JObj (filter (\<lambda>kv. fst kv \<in> {''username'', ''full_name'', ''avatar_url'', ''role''}) b)\<rparr>) w = (res, w')
      \<and> (\<forall>i < length (profiles w).
          profiles w' ! i = profiles w ! i
          \<or> (row_has_id uid (profiles w ! i)
             \<and> (\<exists>k \<in> {''username'', ''full_name'', ''avatar_url'', ''role''}. map_of b k \<noteq> None)
             \<and> (\<forall>c. map_of (profiles w' ! i) c =
                  (if c = ''updated_at'' then Some (JStr now)
                   else if c \<in> {''username'', ''full_name'', ''avatar_url'', ''role''}
                     then (case map_of b c of
                             Some v \<Rightarrow> if v = JUndefined then map_of (profiles w ! i) c else Some v
                           | None \<Rightarrow> map_of (profiles w ! i) c)
                   else map_of (profiles w ! i) c))))
      \<and> ((\<exists>p. res = Responded 200 p) \<longrightarrow>
          (\<exists>k \<in> {''username'', ''full_name'', ''avatar_url'', ''role''}. map_of b k \<noteq> None)
          \<and> (\<forall>i < length (profiles w). row_has_id uid (profiles w ! i) \<longrightarrow>
               (\<forall>c. map_of (profiles w' ! i) c =
                  (if c = ''updated_at'' then Some (JStr now)
                   else if c \<in> {''username'', ''full_name'', ''avatar_url'', ''role''}
                     then (case map_of b c of
                             Some v \<Rightarrow> if v = JUndefined then map_of (profiles w ! i) c else Some v
                           | None \<Rightarrow> map_of (profiles w ! i) c)
                   else map_of (profiles w ! i) c))))
      \<and> ((\<exists>k \<in> {''username'', ''full_name'', ''avatar_url'', ''role''}. map_of b k \<noteq> None)
          \<and> fault sb (Update
            ([(k, field b k). k \<leftarrow> [''username'', ''full_name'', ''avatar_url'', ''role''],
                map_of b k \<noteq> None] @ [(''updated_at'', JStr now)]) uid) = None
          \<and> (\<forall>e. fault sb (SelectSingle uid) \<noteq> Some (Throws e)) \<longrightarrow>
          (\<exists>p. res = Responded 200 (JObj [(''profile'', p)]))
          \<and> calls w' = calls w @ [GetUser (getBearerToken req),
               Update
                 ([(k, field b k). k \<leftarrow> [''username'', ''full_name'', ''avatar_url'', ''role''],
                     map_of b k \<noteq> None] @ [(''updated_at'', JStr now)]) uid,
               SelectSingle uid]
          \<and> (\<forall>i < length (profiles w). row_has_id uid (profiles w ! i) \<longrightarrow>
               (\<forall>c. map_of (profiles w' ! i) c =
                  (if c = ''updated_at'' then Some (JStr now)
                   else if c \<in> {''username'', ''full_name'', ''avatar_url'', ''role''}
                     then (case map_of b c of
                             Some v \<Rightarrow> if v = JUndefined then map_of (profiles w ! i) c else Some v
                           | None \<Rightarrow> map_of (profiles w ! i) c)
                   else map_of (profiles w ! i) c)))
          \<and> (\<forall>i < length (profiles w). \<not> row_has_id uid (profiles w ! i) \<longrightarrow>
               profiles w' ! i = profiles w ! i))"
      by (intro conjI)
  qed
  from p1 p2 p3 p4 p5 show ?thesis
    by (intro conjI)
qed


theorem put_profile_allow_list_witness:
  "put_profile happy_store ''2026-01-01T00:00:00.000Z'' bodyless_put alice_world =
     (Responded 500 (JObj [(''error'', JStr ''internal server error'')]),
      alice_world\<lparr>calls := [GetUser (JStr ''tok1'')]\<rparr>)
   \<and> put_profile happy_store ''2026-01-01T00:00:00.000Z'' email_only_put alice_world =
     (Responded 400 (JObj [(''error'', JStr ''no updatable fields provided'')]),
      alice_world\<lparr>calls := [GetUser (JStr ''tok1'')]\<rparr>)
   \<and> put_profile happy_store ''2026-01-01T00:00:00.000Z''
      (alice_put\<lparr>body := JObj [(''full_name'', JStr ''Alice A'')]\<rparr>) alice_world =
     (Responded 200 (JObj [(''profile'', JObj (alice_updated ''2026-01-01T00:00:00.000Z''))]),
      \<lparr>profiles = [alice_updated ''2026-01-01T00:00:00.000Z''],
       calls = [GetUser (JStr ''tok1''),
         Update [(''full_name'', JStr ''Alice A''),
                 (''updated_at'', JStr ''2026-01-01T00:00:00.000Z'')] (JStr ''u1''),
         SelectSingle (JStr ''u1'')]\<rparr>)
   \<and> map_of (alice_updated ''2026-01-01T00:00:00.000Z'') ''id'' = map_of alice_profile ''id''
   \<and> map_of (alice_updated ''2026-01-01T00:00:00.000Z'') ''updated_at'' =
       Some (JStr ''2026-01-01T00:00:00.000Z'')"
proof -
  let ?now = "''2026-01-01T00:00:00.000Z''"
  let ?resp = "JObj [(''data'', JObj [(''user'', alice_identity)]), (''error'', JNull)]"
  let ?data = "JObj [(''user'', alice_identity)]"
  let ?w' = "\<lparr>profiles = [alice_updated ?now],
       calls = [GetUser (JStr ''tok1''),
         Update [(''full_name'', JStr ''Alice A''), (''updated_at'', JStr ?now)] (JStr ''u1''),
         SelectSingle (JStr ''u1'')]\<rparr>"
  have user: "get_prop ?resp ''error'' = Inr JNull" "\<not> truthy JNull"
      "get_prop ?resp ''data'' = Inr ?data" "truthy (opt_chain ?data ''user'')"
      "get_prop (opt_chain ?data ''user'') ''id'' = Inr (JStr ''u1'')"
    by (simp_all add: field_def opt_chain_def alice_identity_def)

  have token: "truthy (getBearerToken alice_put)"
    by (simp add: getBearerToken_def alice_put_def)
  have resolved: "getUser happy_store (getBearerToken alice_put) = Resolved ?resp"
    by (simp add: getBearerToken_def alice_put_def happy_store_def)
  have b: "body alice_put = JObj [(''full_name'', JStr ''Alice A''), (''email'', JStr ''evil@x.com'')]"
    by (simp add: alice_put_def)
  have run: "put_profile happy_store ?now alice_put alice_world =
     (Responded 200 (JObj [(''profile'', JObj (alice_updated ?now))]), ?w')"
    by (simp add: put_profile_def alice_identity_def alice_session_def alice_profile_def
        happy_store_def alice_world_def alice_put_def alice_updated_def eval_defs)
  note first = put_profile_allow_list [OF token resolved user run]

  have token': "truthy (getBearerToken email_only_put)"
    by (simp add: getBearerToken_def email_only_put_def)
  have resolved': "getUser happy_store (getBearerToken email_only_put) = Resolved ?resp"
    by (simp add: getBearerToken_def email_only_put_def happy_store_def)
  obtain res w' where run': "put_profile happy_store ?now email_only_put alice_world = (res, w')"
    by (cases "put_profile happy_store ?now email_only_put alice_world")
  note second = put_profile_allow_list [OF token' resolved' user run']

  have token'': "truthy (getBearerToken bodyless_put)"
    by (simp add: getBearerToken_def bodyless_put_def)
  have resolved'': "getUser happy_store (getBearerToken bodyless_put) = Resolved ?resp"
    by (simp add: getBearerToken_def bodyless_put_def happy_store_def)
  obtain res'' w'' where
    run'': "put_profile happy_store ?now bodyless_put alice_world = (res'', w'')"
    by (cases "put_profile happy_store ?now bodyless_put alice_world")
  note third = put_profile_allow_list [OF token'' resolved'' user run'']

  from third run'' have "put_profile happy_store ?now bodyless_put alice_world =
     (Responded 500 (JObj [(''error'', JStr ''internal server error'')]),
      alice_world\<lparr>calls := [GetUser (JStr ''tok1'')]\<rparr>)"
    by (simp add: getBearerToken_def bodyless_put_def alice_world_def)
  moreover from second run' have "put_profile happy_store ?now email_only_put alice_world =
     (Responded 400 (JObj [(''error'', JStr ''no updatable fields provided'')]),
      alice_world\<lparr>calls := [GetUser (JStr ''tok1'')]\<rparr>)"
    by (simp add: getBearerToken_def email_only_put_def alice_world_def)
  moreover from first b have "put_profile happy_store ?now
      (alice_put\<lparr>body := JObj [(''full_name'', JStr ''Alice A'')]\<rparr>) alice_world =
     (Responded 200 (JObj [(''profile'', JObj (alice_updated ?now))]), ?w')"
    by simp
  moreover from first have "map_of (alice_updated ?now) ''id'' = map_of alice_profile ''id''"
    by (simp add: alice_world_def)
  moreover from first b have "map_of (alice_updated ?now) ''updated_at'' = Some (JStr ?now)"
    by (simp add: alice_world_def alice_profile_def row_has_id_def)
  ultimately show ?thesis by simp
qed

text \<open>
  An update-profile request with a valid bearer token and no body has no allow-listed
  field, and is answered 500, not 400.
\<close>

theorem put_profile_without_body_is_500:
  "body bodyless_put = JUndefined
   \<and> getUser happy_store (getBearerToken bodyless_put) =
       Resolved (JObj [(''data'', JObj [(''user'', alice_identity)]), (''error'', JNull)])
   \<and> put_profile happy_store ''2026-01-01T00:00:00.000Z'' bodyless_put alice_world =
     (Responded 500 (JObj [(''error'', JStr ''internal server error'')]),
      alice_world\<lparr>calls := [GetUser (JStr ''tok1'')]\<rparr>)"
  by (simp add: put_profile_def bodyless_put_def happy_store_def alice_identity_def
      alice_world_def eval_defs)

text \<open>
  C8. Update-profile twice in succession with the same request and store, at times
  \<open>now1\<close> and \<open>now2\<close>, the first call answered 200: after the second call the table has the
  rows it had after the first, and every column other than \<open>updated_at\<close> holds in every row
  the value it held after the first call. This is so whether or not the second call
  succeeds.
\<close>

theorem put_profile_idempotent:
  assumes first: "put_profile sb now1 req w = (Responded 200 p1, w1)"
    and second: "put_profile sb now2 req w1 = (res2, w2)"
  shows "length (profiles w2) = length (profiles w1)
    \<and> (\<forall>i < length (profiles w1). \<forall>c. c \<noteq> ''updated_at'' \<longrightarrow>
          map_of (profiles w2 ! i) c = map_of (profiles w1 ! i) c)"
proof -
  from put_profile_200 [OF first] obtain ups resp data uid where
      ups: "collect_updates allowed (body req) [] = Inr ups" "ups \<noteq> []"
    and user: "getUser sb (getBearerToken req) = Resolved resp"
      "get_prop resp ''data'' = Inr data" "get_prop (opt_chain data ''user'') ''id'' = Inr uid"
    and w1: "profiles w1 =
        map (\<lambda>r. if row_has_id uid r
               then apply_updates (strip_undefined (AList.update ''updated_at'' (JStr now1) ups)) r
               else r) (profiles w)"
    by blast
  from collect_updates_nonempty_JObj [OF ups] obtain b where b: "body req = JObj b" by blast
  with ups have collected: "collect_updates allowed (JObj b) [] = Inr ups" by simp
  let ?payload = "\<lambda>now. strip_undefined (AList.update ''updated_at'' (JStr now) ups)"
  have F: "map_of (apply_updates (?payload now) r) c =
      (if c = ''updated_at'' then Some (JStr now)
       else if c \<in> set allowed
         then (case map_of b c of
                 Some v \<Rightarrow> if v = JUndefined then map_of r c else Some v
               | None \<Rightarrow> map_of r c)
       else map_of r c)" for now r c
    by (rule payload_row [OF collected])
  have id_kept: "row_has_id uid (apply_updates (?payload now) r) = row_has_id uid r" for now r
    by (simp add: row_has_id_def F allowed_def)
  have again: "map_of (apply_updates (?payload now2) (apply_updates (?payload now1) r)) c =
      map_of (apply_updates (?payload now1) r) c" if "c \<noteq> ''updated_at''" for r c
    using that by (simp add: F split: option.splits)
  have w2: "profiles w2 = profiles w1
      \<or> profiles w2 =
          map (\<lambda>r. if row_has_id uid r then apply_updates (?payload now2) r else r) (profiles w1)"
    using put_profile_profiles [of sb now2 req w1] second user ups by auto
  then show ?thesis
  proof
    assume "profiles w2 = profiles w1"
    then show ?thesis by simp
  next
    assume upd: "profiles w2 =
        map (\<lambda>r. if row_has_id uid r then apply_updates (?payload now2) r else r) (profiles w1)"
    have "map_of (profiles w2 ! i) c = map_of (profiles w1 ! i) c"
      if "i < length (profiles w1)" "c \<noteq> ''updated_at''" for i c
    proof -
      from that(1) w1 have i: "i < length (profiles w)" by simp
      show ?thesis
      proof (cases "row_has_id uid (profiles w ! i)")
        case True
        with i w1 upd that show ?thesis by (simp add: id_kept again)
      next
        case False
        with i w1 upd that show ?thesis by simp
      qed
    qed
    with upd show ?thesis by simp
  qed
qed

theorem put_profile_idempotent_witness:
  "put_profile happy_store ''2026-01-01T00:00:00.000Z'' alice_put alice_world =
     (Responded 200 (JObj [(''profile'', JObj (alice_updated ''2026-01-01T00:00:00.000Z''))]),
      \<lparr>profiles = [alice_updated ''2026-01-01T00:00:00.000Z''],
       calls = [GetUser (JStr ''tok1''),
         Update [(''full_name'', JStr ''Alice A''),
                 (''updated_at'', JStr ''2026-01-01T00:00:00.000Z'')] (JStr ''u1''),
         SelectSingle (JStr ''u1'')]\<rparr>)
   \<and> profiles (snd (put_profile happy_store ''2026-01-02T00:00:00.000Z'' alice_put
        \<lparr>profiles = [alice_updated ''2026-01-01T00:00:00.000Z''],
         calls = [GetUser (JStr ''tok1''),
           Update [(''full_name'', JStr ''Alice A''),
                   (''updated_at'', JStr ''2026-01-01T00:00:00.000Z'')] (JStr ''u1''),
           SelectSingle (JStr ''u1'')]\<rparr>)) =
       [alice_updated ''2026-01-02T00:00:00.000Z'']
   \<and> map_of (alice_updated ''2026-01-02T00:00:00.000Z'') ''full_name'' =
       map_of (alice_updated ''2026-01-01T00:00:00.000Z'') ''full_name''"
proof -
  let ?now1 = "''2026-01-01T00:00:00.000Z''"
  let ?now2 = "''2026-01-02T00:00:00.000Z''"
  let ?w1 = "\<lparr>profiles = [alice_updated ?now1],
       calls = [GetUser (JStr ''tok1''),
         Update [(''full_name'', JStr ''Alice A''), (''updated_at'', JStr ?now1)] (JStr ''u1''),
         SelectSingle (JStr ''u1'')]\<rparr>"
  have first: "put_profile happy_store ?now1 alice_put alice_world =
     (Responded 200 (JObj [(''profile'', JObj (alice_updated ?now1))]), ?w1)"
    by (simp add: put_profile_def alice_identity_def alice_session_def alice_profile_def
        happy_store_def alice_world_def alice_put_def alice_updated_def eval_defs)
  have after: "profiles (snd (put_profile happy_store ?now2 alice_put ?w1)) = [alice_updated ?now2]"
    by (simp add: put_profile_def alice_identity_def alice_session_def alice_profile_def
        happy_store_def alice_world_def alice_put_def alice_updated_def eval_defs)
  obtain res2 w2 where second: "put_profile happy_store ?now2 alice_put ?w1 = (res2, w2)"
    by (cases "put_profile happy_store ?now2 alice_put ?w1")
  with after have w2: "profiles w2 = [alice_updated ?now2]" by simp
  from put_profile_idempotent [OF first second]
  have "\<forall>i < length (profiles ?w1). \<forall>c. c \<noteq> ''updated_at'' \<longrightarrow>
      map_of (profiles w2 ! i) c = map_of (profiles ?w1 ! i) c"
    by (rule conjunct2)
  then have "map_of (profiles w2 ! 0) ''full_name'' = map_of (profiles ?w1 ! 0) ''full_name''"
    by simp
  with w2 have "map_of (alice_updated ?now2) ''full_name'' = map_of (alice_updated ?now1) ''full_name''"
    by simp
  with first after show ?thesis by simp
qed

end
